theory Spec2Isabelle
  imports Complex_Main
begin

section \<open>Data model\<close>

text \<open>
  The storage module keeps five JSON records in the browser's \<^verbatim>\<open>localStorage\<close>.
  JavaScript strings are modelled as \<^typ>\<open>string\<close>, one \<^typ>\<open>char\<close> per code unit in
  the range U+0000..U+00FF. JavaScript numbers that hold identifiers and timestamps are
  \<^typ>\<open>int\<close>. A property that may be \<^verbatim>\<open>undefined\<close> or \<^verbatim>\<open>null\<close> is an
  \<^typ>\<open>'a option\<close>.

  An amount is a double: a finite value (every finite double is a rational number; the two
  zeros are one value), \<^verbatim>\<open>NaN\<close> or an infinity. The machine rounds the sum and the
  quotient of two doubles; the two operations are parameters of the functions that add or
  divide (an \<open>arithmetic\<close>), and nothing is assumed of them.
\<close>

datatype number = Finite rat | NaN | PosInfinity | NegInfinity

record arithmetic =
  js_plus :: "number \<Rightarrow> number \<Rightarrow> number"
  js_divide :: "number \<Rightarrow> number \<Rightarrow> number"

record nutrient =
  nutrient_name :: string
  nutrient_amount :: number

record nutrition =
  nutrients :: "nutrient list option"

record ingredient =
  ingredient_name :: string
  ingredient_aisle :: "string option"
  ingredient_amount :: "number option"
  ingredient_unit :: "string option"

record recipe =
  recipe_id :: int
  recipe_title :: string
  recipe_nutrition :: "nutrition option"
  extendedIngredients :: "ingredient list option"

text \<open>A favorite is \<^verbatim>\<open>{...recipe, addedAt: Date.now()}\<close>: the recipe's fields and one more.\<close>

record favorite = recipe +
  addedAt :: int

record shopping_item =
  item_id :: int
  item_name :: string
  item_category :: string
  item_checked :: bool
  item_addedAt :: int

text \<open>
  A plain JavaScript object is the list of its own enumerable string-keyed properties, in
  the order \<^verbatim>\<open>Object.keys\<close> and \<^verbatim>\<open>JSON.stringify\<close> visit them. A meal slot holds
  \<^verbatim>\<open>null\<close> (\<^const>\<open>None\<close>) or a recipe.
\<close>

type_synonym 'v js_object = "(string \<times> 'v) list"

type_synonym day_meals = "recipe option js_object"

type_synonym meal_plan = "day_meals js_object"

text \<open>
  The store: one field per key of \<^verbatim>\<open>STORAGE_KEYS\<close> that the operations below use;
  \<^const>\<open>None\<close> is a key with no record.
\<close>

record storage =
  FAVORITES :: "favorite list option"
  MEAL_PLAN :: "meal_plan option"
  SHOPPING_LIST :: "shopping_item list option"
  RECENT_SEARCHES :: "string list option"

section \<open>Generic storage functions\<close>

text \<open>
  Every operation takes the store and returns its result paired with the store it leaves
  (a \<^verbatim>\<open>void\<close> function returns the store alone).

  \<^verbatim>\<open>saveToStorage(key, data)\<close> catches the exception of \<^verbatim>\<open>localStorage.setItem\<close> (quota
  exceeded, storage disabled) and returns false. Whether the browser accepts the write is
  an input of the call, \<open>ok\<close>; \<open>write\<close> stores the data under the key.
  \<^verbatim>\<open>getFromStorage(key)\<close> reads the record under the key, \<open>read\<close> selecting it.
\<close>

definition saveToStorage :: "bool \<Rightarrow> (storage \<Rightarrow> storage) \<Rightarrow> storage \<Rightarrow> bool \<times> storage" where
  "saveToStorage ok write ls = (if ok then (True, write ls) else (False, ls))"

definition getFromStorage :: "(storage \<Rightarrow> 'a option) \<Rightarrow> storage \<Rightarrow> 'a option \<times> storage" where
  "getFromStorage read ls = (read ls, ls)"

definition clearAllStorage :: "storage \<Rightarrow> storage" where
  "clearAllStorage ls =
     ls\<lparr>FAVORITES := None, MEAL_PLAN := None, SHOPPING_LIST := None, RECENT_SEARCHES := None\<rparr>"

section \<open>Favorites\<close>

definition getFavorites :: "storage \<Rightarrow> favorite list \<times> storage" where
  "getFavorites ls =
     (let (data, ls1) = getFromStorage FAVORITES ls
      in (case data of Some favorites \<Rightarrow> favorites | None \<Rightarrow> [], ls1))"

text \<open>\<open>now\<close> is the value \<^verbatim>\<open>Date.now()\<close> returns during the call.\<close>

definition addToFavorites :: "bool \<Rightarrow> int \<Rightarrow> recipe \<Rightarrow> storage \<Rightarrow> bool \<times> storage" where
  "addToFavorites ok now recipe ls =
     (let (favorites, ls1) = getFavorites ls;
          exists = list_ex (\<lambda>fav. recipe_id fav = recipe_id recipe) favorites
      in if exists then (False, ls1)
         else
           let favorites' = favorites @ [recipe.extend recipe (favorite.fields now)];
               saved = saveToStorage ok (\<lambda>s. s\<lparr>FAVORITES := Some favorites'\<rparr>) ls1
           in (True, snd saved))"

definition removeFromFavorites :: "bool \<Rightarrow> int \<Rightarrow> storage \<Rightarrow> storage" where
  "removeFromFavorites ok recipeId ls =
     (let (favorites, ls1) = getFavorites ls;
          filtered = filter (\<lambda>fav. recipe_id fav \<noteq> recipeId) favorites
      in snd (saveToStorage ok (\<lambda>s. s\<lparr>FAVORITES := Some filtered\<rparr>) ls1))"

definition isInFavorites :: "int \<Rightarrow> storage \<Rightarrow> bool \<times> storage" where
  "isInFavorites recipeId ls =
     (let (favorites, ls1) = getFavorites ls
      in (list_ex (\<lambda>fav. recipe_id fav = recipeId) favorites, ls1))"

definition clearFavorites :: "bool \<Rightarrow> storage \<Rightarrow> storage" where
  "clearFavorites ok ls = snd (saveToStorage ok (\<lambda>s. s\<lparr>FAVORITES := Some []\<rparr>) ls)"

text \<open>The collection invariant of the data model: no two favorites share a recipe id.\<close>

definition unique_favorites :: "storage \<Rightarrow> bool" where
  "unique_favorites ls = distinct (map recipe_id (fst (getFavorites ls)))"

section \<open>Property access on plain objects\<close>

text \<open>
  \<^verbatim>\<open>obj[k]\<close> on a plain object finds an own property, or else a property of
  \<^verbatim>\<open>Object.prototype\<close>: eleven built-in functions and the accessor \<^verbatim>\<open>__proto__\<close>, which
  yields \<^verbatim>\<open>Object.prototype\<close> itself. All twelve values are truthy. The built-in objects
  are taken in their initial state at the start of each call.
\<close>

definition Object_prototype_names :: "string list" where
  "Object_prototype_names =
     [''constructor'', ''__defineGetter__'', ''__defineSetter__'', ''hasOwnProperty'',
      ''__lookupGetter__'', ''__lookupSetter__'', ''isPrototypeOf'', ''propertyIsEnumerable'',
      ''toString'', ''valueOf'', ''__proto__'', ''toLocaleString'']"

datatype 'v property = Own 'v | Builtin | Undefined

definition Object_keys :: "'v js_object \<Rightarrow> string list" where
  "Object_keys obj = map fst obj"

definition Object_values :: "'v js_object \<Rightarrow> 'v list" where
  "Object_values obj = map snd obj"

definition get_property :: "'v js_object \<Rightarrow> string \<Rightarrow> 'v property" where
  "get_property obj k =
     (case map_of obj k of
        Some v \<Rightarrow> Own v
      | None \<Rightarrow> if k \<in> set Object_prototype_names then Builtin else Undefined)"

text \<open>
  \<^verbatim>\<open>obj[k] = v\<close> on a plain object. An own property keeps its place. The key
  \<^verbatim>\<open>__proto__\<close>, when not an own property, reaches the setter inherited from
  \<^verbatim>\<open>Object.prototype\<close>, which changes the prototype of the object in memory and creates
  no own property, so \<^verbatim>\<open>JSON.stringify\<close> writes nothing for it. A new key that is an
  array index (the canonical decimal form of an integer below \<open>2\<^sup>3\<^sup>2 - 1\<close>) is
  enumerated among the array indices, in ascending order and before every other key; any
  other new key comes last.
\<close>

definition is_digit :: "char \<Rightarrow> bool" where
  "is_digit c = (48 \<le> (of_char c :: nat) \<and> (of_char c :: nat) \<le> 57)"

definition digits_value :: "string \<Rightarrow> int" where
  "digits_value s = foldl (\<lambda>n c. 10 * n + (of_char c - 48)) 0 s"

definition array_index :: "string \<Rightarrow> int option" where
  "array_index s =
     (case s of
        [] \<Rightarrow> None
      | c # cs \<Rightarrow>
          if list_all is_digit s \<and> (cs = [] \<or> c \<noteq> CHR ''0'') \<and> digits_value s < 4294967295
          then Some (digits_value s) else None)"

fun insert_index :: "int \<Rightarrow> string \<Rightarrow> 'v \<Rightarrow> 'v js_object \<Rightarrow> 'v js_object" where
  "insert_index n k v [] = [(k, v)]"
| "insert_index n k v ((k', v') # rest) =
     (case array_index k' of
        Some m \<Rightarrow>
          if m < n then (k', v') # insert_index n k v rest else (k, v) # (k', v') # rest
      | None \<Rightarrow> (k, v) # (k', v') # rest)"

definition update_own :: "string \<Rightarrow> 'v \<Rightarrow> 'v js_object \<Rightarrow> 'v js_object" where
  "update_own k v obj = map (\<lambda>(k', v'). if k' = k then (k', v) else (k', v')) obj"

definition set_property :: "string \<Rightarrow> 'v \<Rightarrow> 'v js_object \<Rightarrow> 'v js_object" where
  "set_property k v obj =
     (if k \<in> set (Object_keys obj) then update_own k v obj
      else if k = ''__proto__'' then obj
      else case array_index k of
             Some n \<Rightarrow> insert_index n k v obj
           | None \<Rightarrow> obj @ [(k, v)])"

section \<open>Meal plan\<close>

definition emptyDay :: day_meals where
  "emptyDay = [(''breakfast'', None), (''lunch'', None), (''dinner'', None)]"

definition emptyPlan :: meal_plan where
  "emptyPlan =
     [(''monday'', emptyDay), (''tuesday'', emptyDay), (''wednesday'', emptyDay),
      (''thursday'', emptyDay), (''friday'', emptyDay), (''saturday'', emptyDay),
      (''sunday'', emptyDay)]"

definition getMealPlan :: "storage \<Rightarrow> meal_plan \<times> storage" where
  "getMealPlan ls =
     (let (data, ls1) = getFromStorage MEAL_PLAN ls
      in (case data of Some mealPlan \<Rightarrow> mealPlan | None \<Rightarrow> emptyPlan, ls1))"

text \<open>
  A call either returns or throws a \<^verbatim>\<open>TypeError\<close>. \<^verbatim>\<open>addMealToPlan\<close> can throw only
  when \<^verbatim>\<open>mealPlan[day]\<close> is a built-in object: assigning \<^verbatim>\<open>__proto__\<close> on
  \<^verbatim>\<open>Object.prototype\<close> (its prototype is immutable), and assigning \<^verbatim>\<open>caller\<close> or
  \<^verbatim>\<open>arguments\<close> on a built-in function (the setters inherited from
  \<^verbatim>\<open>Function.prototype\<close> throw). Every other assignment on a built-in object completes
  (the script runs in sloppy mode) and changes no own property of the plan.
\<close>

datatype 'a completion = Returns 'a | Throws

definition builtin_assignment_throws :: "string \<Rightarrow> string \<Rightarrow> bool" where
  "builtin_assignment_throws day mealType =
     (if day = ''__proto__'' then mealType = ''__proto__''
      else mealType = ''caller'' \<or> mealType = ''arguments'')"

definition addMealToPlan ::
  "bool \<Rightarrow> string \<Rightarrow> string \<Rightarrow> recipe \<Rightarrow> storage \<Rightarrow> bool completion \<times> storage" where
  "addMealToPlan ok day mealType recipe ls =
     (let (mealPlan, ls1) = getMealPlan ls
      in case get_property mealPlan day of
           Undefined \<Rightarrow> (Returns False, ls1)
         | Builtin \<Rightarrow>
             if builtin_assignment_throws day mealType then (Throws, ls1)
             else (Returns True,
                   snd (saveToStorage ok (\<lambda>s. s\<lparr>MEAL_PLAN := Some mealPlan\<rparr>) ls1))
         | Own dayMeals \<Rightarrow>
             let mealPlan' =
                   update_own day (set_property mealType (Some recipe) dayMeals) mealPlan
             in (Returns True,
                 snd (saveToStorage ok (\<lambda>s. s\<lparr>MEAL_PLAN := Some mealPlan'\<rparr>) ls1)))"

definition clearMealPlan :: "bool \<Rightarrow> storage \<Rightarrow> storage" where
  "clearMealPlan ok ls = snd (saveToStorage ok (\<lambda>s. s\<lparr>MEAL_PLAN := Some emptyPlan\<rparr>) ls)"

record plan_entry =
  entry_day :: string
  entry_mealType :: string
  entry_recipe :: recipe

definition getAllMealsFromPlan :: "storage \<Rightarrow> plan_entry list \<times> storage" where
  "getAllMealsFromPlan ls =
     (let (mealPlan, ls1) = getMealPlan ls;
          meals =
            concat (map (\<lambda>day.
              case map_of mealPlan day of
                None \<Rightarrow> []
              | Some dayMeals \<Rightarrow>
                  concat (map (\<lambda>mealType.
                    case map_of dayMeals mealType of
                      Some (Some meal) \<Rightarrow>
                        [\<lparr>entry_day = day, entry_mealType = mealType, entry_recipe = meal\<rparr>]
                    | _ \<Rightarrow> [])
                    (Object_keys dayMeals)))
              (Object_keys mealPlan))
      in (meals, ls1))"

section \<open>Shopping list\<close>

text \<open>
  \<^verbatim>\<open>String.prototype.toLowerCase\<close> on code units up to U+00FF: the letters A to Z and the
  upper-case letters of Latin-1 (U+00C0 to U+00DE without the multiplication sign U+00D7)
  move up by 32.
\<close>

definition toLowerCase_char :: "char \<Rightarrow> char" where
  "toLowerCase_char c =
     (let n = (of_char c :: nat)
      in if (65 \<le> n \<and> n \<le> 90) \<or> (192 \<le> n \<and> n \<le> 222 \<and> n \<noteq> 215) then char_of (n + 32)
         else c)"

definition toLowerCase :: "string \<Rightarrow> string" where
  "toLowerCase s = map toLowerCase_char s"

definition getShoppingList :: "storage \<Rightarrow> shopping_item list \<times> storage" where
  "getShoppingList ls =
     (let (data, ls1) = getFromStorage SHOPPING_LIST ls
      in (case data of Some list \<Rightarrow> list | None \<Rightarrow> [], ls1))"

text \<open>The argument of \<^verbatim>\<open>addToShoppingList\<close>: a name and, maybe, a category.\<close>

record new_item =
  new_name :: string
  new_category :: "string option"

text \<open>\<^verbatim>\<open>x || d\<close> on a string that may be undefined: the empty string is falsy too.\<close>

definition or_else :: "string option \<Rightarrow> string \<Rightarrow> string" where
  "or_else x d = (case x of None \<Rightarrow> d | Some s \<Rightarrow> if s = [] then d else s)"

text \<open>
  The object literal reads the clock twice: \<open>now_id\<close> for \<^verbatim>\<open>id\<close>, then \<open>now_added\<close> for
  \<^verbatim>\<open>addedAt\<close>.
\<close>

definition addToShoppingList ::
  "bool \<Rightarrow> int \<Rightarrow> int \<Rightarrow> new_item \<Rightarrow> storage \<Rightarrow> bool \<times> storage" where
  "addToShoppingList ok now_id now_added item ls =
     (let (list, ls1) = getShoppingList ls;
          exists = list_ex (\<lambda>i. toLowerCase (item_name i) = toLowerCase (new_name item)) list
      in if exists then (False, ls1)
         else
           let list' = list @
                 [\<lparr>item_id = now_id, item_name = new_name item,
                   item_category = or_else (new_category item) ''other'',
                   item_checked = False, item_addedAt = now_added\<rparr>]
           in (True, snd (saveToStorage ok (\<lambda>s. s\<lparr>SHOPPING_LIST := Some list'\<rparr>) ls1)))"

definition removeFromShoppingList :: "bool \<Rightarrow> int \<Rightarrow> storage \<Rightarrow> storage" where
  "removeFromShoppingList ok itemId ls =
     (let (list, ls1) = getShoppingList ls;
          filtered = filter (\<lambda>item. item_id item \<noteq> itemId) list
      in snd (saveToStorage ok (\<lambda>s. s\<lparr>SHOPPING_LIST := Some filtered\<rparr>) ls1))"

text \<open>\<^verbatim>\<open>list.find\<close> yields the first item with the id; its flag is flipped in place.\<close>

fun toggle_first :: "int \<Rightarrow> shopping_item list \<Rightarrow> shopping_item list option" where
  "toggle_first itemId [] = None"
| "toggle_first itemId (i # rest) =
     (if item_id i = itemId then Some (i\<lparr>item_checked := \<not> item_checked i\<rparr> # rest)
      else map_option ((#) i) (toggle_first itemId rest))"

definition toggleShoppingItem :: "bool \<Rightarrow> int \<Rightarrow> storage \<Rightarrow> bool \<times> storage" where
  "toggleShoppingItem ok itemId ls =
     (let (list, ls1) = getShoppingList ls
      in case toggle_first itemId list of
           Some list' \<Rightarrow> (True, snd (saveToStorage ok (\<lambda>s. s\<lparr>SHOPPING_LIST := Some list'\<rparr>) ls1))
         | None \<Rightarrow> (False, ls1))"

definition clearShoppingList :: "bool \<Rightarrow> storage \<Rightarrow> storage" where
  "clearShoppingList ok ls = snd (saveToStorage ok (\<lambda>s. s\<lparr>SHOPPING_LIST := Some []\<rparr>) ls)"

section \<open>Categorizing ingredients\<close>

text \<open>
  Each pattern is an alternation of literal words, so \<^verbatim>\<open>str.match(pattern)\<close> is truthy
  exactly when one of the words occurs in the string.
\<close>

fun starts_with :: "string \<Rightarrow> string \<Rightarrow> bool" where
  "starts_with s [] = True"
| "starts_with [] (p # ps) = False"
| "starts_with (c # s) (p # ps) = (c = p \<and> starts_with s ps)"

fun str_includes :: "string \<Rightarrow> string \<Rightarrow> bool" where
  "str_includes [] w = (w = [])"
| "str_includes (c # s) w = (starts_with (c # s) w \<or> str_includes s w)"

definition match :: "string \<Rightarrow> string list \<Rightarrow> bool" where
  "match str alternatives = list_ex (str_includes str) alternatives"

definition produce_words :: "string list" where
  "produce_words =
     [''produce'', ''vegetable'', ''fruit'', ''lettuce'', ''tomato'', ''onion'', ''pepper'',
      ''carrot'', ''broccoli'', ''spinach'', ''kale'', ''cabbage'', ''cucumber'', ''zucchini'',
      ''potato'', ''celery'', ''avocado'', ''mushroom'', ''garlic'', ''herb'', ''fresh'']"

definition meat_words :: "string list" where
  "meat_words =
     [''meat'', ''seafood'', ''poultry'', ''beef'', ''chicken'', ''pork'', ''fish'', ''salmon'',
      ''tuna'', ''shrimp'', ''turkey'', ''bacon'', ''ham'', ''steak'', ''ground'']"

definition dairy_words :: "string list" where
  "dairy_words =
     [''dairy'', ''milk'', ''cheese'', ''yogurt'', ''butter'', ''cream'', ''egg'', ''sour cream'',
      ''cottage cheese'', ''mozzarella'', ''cheddar'', ''parmesan'']"

definition grains_words :: "string list" where
  "grains_words =
     [''bread'', ''bakery'', ''grain'', ''pasta'', ''rice'', ''cereal'', ''flour'', ''oat'',
      ''quinoa'', ''tortilla'', ''bagel'', ''bun'', ''roll'', ''noodle'', ''spaghetti'', ''penne'']"

definition spices_words :: "string list" where
  "spices_words =
     [''spice'', ''condiment'', ''oil'', ''vinegar'', ''sauce'', ''seasoning'', ''salt'',
      ''pepper'', ''oregano'', ''basil'', ''cumin'', ''paprika'', ''cinnamon'', ''vanilla'',
      ''mayo'', ''mustard'', ''ketchup'', ''soy sauce'', ''olive oil'']"

definition pantry_words :: "string list" where
  "pantry_words =
     [''canned'', ''jar'', ''can'', ''dried'', ''baking'', ''sugar'', ''stock'', ''broth'',
      ''bean'', ''tomato paste'', ''coconut milk'']"

definition categorizeIngredient :: "string option \<Rightarrow> string" where
  "categorizeIngredient aisle =
     (let aisleStr = toLowerCase (or_else aisle [])
      in if match aisleStr produce_words then ''produce''
         else if match aisleStr meat_words then ''meat''
         else if match aisleStr dairy_words then ''dairy''
         else if match aisleStr grains_words then ''grains''
         else if match aisleStr spices_words then ''spices''
         else if match aisleStr pantry_words then ''pantry''
         else ''other'')"

text \<open>
  The rule in the specification's words: an ordered list of (category, pattern) rules, the
  first rule whose pattern matches the lower-cased input wins, and no match is "other".
\<close>

definition category_rules :: "(string \<times> string list) list" where
  "category_rules =
     [(''produce'', produce_words), (''meat'', meat_words), (''dairy'', dairy_words),
      (''grains'', grains_words), (''spices'', spices_words), (''pantry'', pantry_words)]"

definition first_match_category :: "string \<Rightarrow> string" where
  "first_match_category input =
     (case find (\<lambda>rule. match (toLowerCase input) (snd rule)) category_rules of
        Some rule \<Rightarrow> fst rule
      | None \<Rightarrow> ''other'')"

section \<open>Generating the shopping list from the meal plan\<close>

record generated_item =
  gen_name :: string
  gen_category :: string
  gen_amount :: number
  gen_unit :: string
  gen_checked :: bool

text \<open>
  The \<^verbatim>\<open>Map\<close> keeps its entries in insertion order; \<^verbatim>\<open>has\<close> and \<^verbatim>\<open>get\<close> compare the
  key strings exactly. \<^verbatim>\<open>ingredient.amount || 0\<close> is 0 for a missing amount and for the
  falsy numbers 0 and \<^verbatim>\<open>NaN\<close>. \<^verbatim>\<open>existing.amount += ...\<close> is the machine's addition.
\<close>

definition falsy :: "number \<Rightarrow> bool" where
  "falsy n = (n = Finite 0 \<or> n = NaN)"

definition amount_or_0 :: "ingredient \<Rightarrow> number" where
  "amount_or_0 ingredient =
     (case ingredient_amount ingredient of
        None \<Rightarrow> Finite 0
      | Some a \<Rightarrow> if falsy a then Finite 0 else a)"

definition add_ingredient ::
  "arithmetic \<Rightarrow> (string \<times> generated_item) list \<Rightarrow> ingredient \<Rightarrow>
   (string \<times> generated_item) list" where
  "add_ingredient ar ingredients ingredient =
     (let name = ingredient_name ingredient;
          category =
            categorizeIngredient
              (Some (or_else (ingredient_aisle ingredient) (ingredient_name ingredient)))
      in if name \<in> set (map fst ingredients)
         then map (\<lambda>(k, existing).
                if k = name
                then (k, existing\<lparr>gen_amount :=
                                     js_plus ar (gen_amount existing) (amount_or_0 ingredient)\<rparr>)
                else (k, existing)) ingredients
         else ingredients @
                [(name, \<lparr>gen_name = name, gen_category = category,
                          gen_amount = amount_or_0 ingredient,
                          gen_unit = or_else (ingredient_unit ingredient) [],
                          gen_checked = False\<rparr>)])"

definition add_recipe ::
  "arithmetic \<Rightarrow> (string \<times> generated_item) list \<Rightarrow> recipe \<Rightarrow>
   (string \<times> generated_item) list" where
  "add_recipe ar ingredients recipe =
     (case extendedIngredients recipe of
        Some list \<Rightarrow> foldl (add_ingredient ar) ingredients list
      | None \<Rightarrow> ingredients)"

definition generateShoppingListFromMealPlan ::
  "arithmetic \<Rightarrow> storage \<Rightarrow> generated_item list \<times> storage" where
  "generateShoppingListFromMealPlan ar ls =
     (let (meals, ls1) = getAllMealsFromPlan ls;
          ingredients = foldl (add_recipe ar) [] (map entry_recipe meals)
      in (map snd ingredients, ls1))"

section \<open>Nutrition\<close>

text \<open>
  \<^verbatim>\<open>Math.round\<close> yields the integer nearest to a finite number, a half upwards; the result
  is a double whenever the argument is, so no rounding error arises. \<^verbatim>\<open>NaN\<close> and the
  infinities are returned as they are.
\<close>

fun Math_round :: "number \<Rightarrow> number" where
  "Math_round (Finite x) = Finite (of_int \<lfloor>x + 1 / 2\<rfloor>)"
| "Math_round NaN = NaN"
| "Math_round PosInfinity = PosInfinity"
| "Math_round NegInfinity = NegInfinity"

record nutrition_values =
  calories :: number
  protein :: number
  carbs :: number
  fat :: number

definition extractNutritionFromRecipe :: "recipe \<Rightarrow> nutrition_values" where
  "extractNutritionFromRecipe recipe =
     (case recipe_nutrition recipe of
        None \<Rightarrow> \<lparr>calories = Finite 0, protein = Finite 0, carbs = Finite 0, fat = Finite 0\<rparr>
      | Some nutrition \<Rightarrow>
          (case nutrients nutrition of
             None \<Rightarrow> \<lparr>calories = Finite 0, protein = Finite 0, carbs = Finite 0, fat = Finite 0\<rparr>
           | Some list \<Rightarrow>
               let caloriesNutrient = find (\<lambda>n. nutrient_name n = ''Calories'') list;
                   proteinNutrient = find (\<lambda>n. nutrient_name n = ''Protein'') list;
                   carbsNutrient = find (\<lambda>n. nutrient_name n = ''Carbohydrates'') list;
                   fatNutrient = find (\<lambda>n. nutrient_name n = ''Fat'') list
               in \<lparr>calories = (case caloriesNutrient of
                                  Some n \<Rightarrow> Math_round (nutrient_amount n) | None \<Rightarrow> Finite 0),
                    protein = (case proteinNutrient of
                                 Some n \<Rightarrow> Math_round (nutrient_amount n) | None \<Rightarrow> Finite 0),
                    carbs = (case carbsNutrient of
                               Some n \<Rightarrow> Math_round (nutrient_amount n) | None \<Rightarrow> Finite 0),
                    fat = (case fatNutrient of
                             Some n \<Rightarrow> Math_round (nutrient_amount n) | None \<Rightarrow> Finite 0)\<rparr>))"

text \<open>The four accumulators of \<^verbatim>\<open>loadWeekNutrition\<close>, each \<^verbatim>\<open>+=\<close> the machine's addition.\<close>

definition add_nutrition ::
  "arithmetic \<Rightarrow> nutrition_values \<Rightarrow> nutrition_values \<Rightarrow> nutrition_values" where
  "add_nutrition ar weekly n =
     \<lparr>calories = js_plus ar (calories weekly) (calories n),
       protein = js_plus ar (protein weekly) (protein n),
       carbs = js_plus ar (carbs weekly) (carbs n),
       fat = js_plus ar (fat weekly) (fat n)\<rparr>"

definition weekDays :: "string list" where
  "weekDays =
     [''monday'', ''tuesday'', ''wednesday'', ''thursday'', ''friday'', ''saturday'', ''sunday'']"

text \<open>
  The weekly totals of \<^verbatim>\<open>loadWeekNutrition\<close>: for each of the seven days whose
  \<^verbatim>\<open>mealPlan[day]\<close> is truthy, every truthy value of the day object is extracted and added.
  (A built-in object has no enumerable own property.)
\<close>

definition add_day ::
  "arithmetic \<Rightarrow> meal_plan \<Rightarrow> nutrition_values \<Rightarrow> string \<Rightarrow> nutrition_values" where
  "add_day ar mealPlan weekly day =
     (case get_property mealPlan day of
        Own dayMeals \<Rightarrow>
          foldl (\<lambda>t meal. case meal of
                             Some recipe \<Rightarrow> add_nutrition ar t (extractNutritionFromRecipe recipe)
                           | None \<Rightarrow> t)
            weekly (Object_values dayMeals)
      | Builtin \<Rightarrow> weekly
      | Undefined \<Rightarrow> weekly)"

definition weeklyTotals :: "arithmetic \<Rightarrow> meal_plan \<Rightarrow> nutrition_values" where
  "weeklyTotals ar mealPlan =
     foldl (add_day ar mealPlan)
       \<lparr>calories = Finite 0, protein = Finite 0, carbs = Finite 0, fat = Finite 0\<rparr> weekDays"

text \<open>
  \<^verbatim>\<open>loadWeekNutrition\<close> hands the four daily averages to \<^verbatim>\<open>updateMainStats\<close>, which
  writes them to the page; the averages are the result here. Each is
  \<^verbatim>\<open>Math.round(total / 7)\<close>, the division being the machine's.
\<close>

definition loadWeekNutrition :: "arithmetic \<Rightarrow> storage \<Rightarrow> nutrition_values \<times> storage" where
  "loadWeekNutrition ar ls =
     (let (mealPlan, ls1) = getMealPlan ls;
          weekly = weeklyTotals ar mealPlan
      in (\<lparr>calories = Math_round (js_divide ar (calories weekly) (Finite 7)),
            protein = Math_round (js_divide ar (protein weekly) (Finite 7)),
            carbs = Math_round (js_divide ar (carbs weekly) (Finite 7)),
            fat = Math_round (js_divide ar (fat weekly) (Finite 7))\<rparr>, ls1))"

section \<open>Recent searches\<close>

text \<open>
  \<^verbatim>\<open>String.prototype.trim\<close> strips white space and line terminators from both ends; up to
  U+00FF these are U+0009 to U+000D, the space and the no-break space U+00A0.
\<close>

definition is_white_space :: "char \<Rightarrow> bool" where
  "is_white_space c =
     (let n = (of_char c :: nat) in (9 \<le> n \<and> n \<le> 13) \<or> n = 32 \<or> n = 160)"

definition trim :: "string \<Rightarrow> string" where
  "trim s = rev (dropWhile is_white_space (rev (dropWhile is_white_space s)))"

definition getRecentSearches :: "storage \<Rightarrow> string list \<times> storage" where
  "getRecentSearches ls =
     (let (data, ls1) = getFromStorage RECENT_SEARCHES ls
      in (case data of Some searches \<Rightarrow> searches | None \<Rightarrow> [], ls1))"

definition addRecentSearch :: "bool \<Rightarrow> string \<Rightarrow> storage \<Rightarrow> storage" where
  "addRecentSearch ok query ls =
     (if query = [] \<or> trim query = [] then ls
      else
        let (searches, ls1) = getRecentSearches ls;
            filtered = filter (\<lambda>s. s \<noteq> query) searches;
            filtered' = query # filtered;
            limited = take 10 filtered'
        in snd (saveToStorage ok (\<lambda>s. s\<lparr>RECENT_SEARCHES := Some limited\<rparr>) ls1))"

definition clearRecentSearches :: "bool \<Rightarrow> storage \<Rightarrow> storage" where
  "clearRecentSearches ok ls = snd (saveToStorage ok (\<lambda>s. s\<lparr>RECENT_SEARCHES := Some []\<rparr>) ls)"

section \<open>Sequences of calls\<close>

text \<open>
  A caller's sequence of \<^verbatim>\<open>addMealToPlan\<close> calls, each with the browser's answer to its
  write; a call that throws leaves the store as it was.
\<close>

type_synonym plan_call = "bool \<times> string \<times> string \<times> recipe"

definition populate :: "plan_call list \<Rightarrow> storage \<Rightarrow> storage" where
  "populate calls ls =
     fold (\<lambda>(ok, day, mealType, recipe) s. snd (addMealToPlan ok day mealType recipe s)) calls ls"

definition addRecentSearches :: "(bool \<times> string) list \<Rightarrow> storage \<Rightarrow> storage" where
  "addRecentSearches calls ls = fold (\<lambda>(ok, query) s. addRecentSearch ok query s) calls ls"

section \<open>The specification's descriptions\<close>

text \<open>
  The following definitions follow the words of the specification, to be compared with
  the functions above.

  The meal plan of the data model: the seven week days, in order, each with the three
  slots breakfast, lunch and dinner, in order.
\<close>

definition mealTypes :: "string list" where
  "mealTypes = [''breakfast'', ''lunch'', ''dinner'']"

definition three_slot_plan :: "meal_plan \<Rightarrow> bool" where
  "three_slot_plan mealPlan =
     (Object_keys mealPlan = weekDays \<and> list_all (\<lambda>d. Object_keys (snd d) = mealTypes) mealPlan)"

definition has_week_days :: "meal_plan \<Rightarrow> bool" where
  "has_week_days mealPlan = list_all (\<lambda>day. day \<in> set (Object_keys mealPlan)) weekDays"

definition slot :: "meal_plan \<Rightarrow> string \<Rightarrow> string \<Rightarrow> recipe option" where
  "slot mealPlan day mealType =
     (case map_of mealPlan day of
        None \<Rightarrow> None
      | Some dayMeals \<Rightarrow> (case map_of dayMeals mealType of None \<Rightarrow> None | Some meal \<Rightarrow> meal))"

text \<open>The non-null slots in day order (monday to sunday), then meal order.\<close>

definition meals_in_order :: "meal_plan \<Rightarrow> plan_entry list" where
  "meals_in_order mealPlan =
     concat (map (\<lambda>day.
       concat (map (\<lambda>mealType.
         case slot mealPlan day mealType of
           None \<Rightarrow> []
         | Some meal \<Rightarrow> [\<lparr>entry_day = day, entry_mealType = mealType, entry_recipe = meal\<rparr>])
         mealTypes))
       weekDays)"

definition call_slot :: "plan_call \<Rightarrow> string \<times> string" where
  "call_slot c = (fst (snd c), fst (snd (snd c)))"

definition standard_call :: "plan_call \<Rightarrow> bool" where
  "standard_call c = (fst (call_slot c) \<in> set weekDays \<and> snd (call_slot c) \<in> set mealTypes)"

text \<open>
  Whether a day object of the plan has an own property of the given name.
\<close>

definition holds_key :: "meal_plan \<Rightarrow> string \<Rightarrow> string \<Rightarrow> bool" where
  "holds_key mealPlan day mealType =
     (case map_of mealPlan day of
        None \<Rightarrow> False
      | Some dayMeals \<Rightarrow> mealType \<in> set (Object_keys dayMeals))"

text \<open>
  Grouping ingredients by exact name: the first occurrence gives the category, the unit
  and the first amount; the amounts of the later occurrences are added to it one after the
  other, in their order; and the groups come in the order of their first occurrences.
\<close>

definition first_entry :: "ingredient \<Rightarrow> number \<Rightarrow> generated_item" where
  "first_entry ingredient total_amount =
     \<lparr>gen_name = ingredient_name ingredient,
       gen_category =
         categorizeIngredient
           (Some (or_else (ingredient_aisle ingredient) (ingredient_name ingredient))),
       gen_amount = total_amount,
       gen_unit = or_else (ingredient_unit ingredient) [],
       gen_checked = False\<rparr>"

fun group_by_name :: "arithmetic \<Rightarrow> ingredient list \<Rightarrow> generated_item list" where
  "group_by_name ar [] = []"
| "group_by_name ar (i # rest) =
     first_entry i
       (foldl (js_plus ar) (amount_or_0 i)
          (map amount_or_0 (filter (\<lambda>j. ingredient_name j = ingredient_name i) rest)))
     # group_by_name ar (filter (\<lambda>j. ingredient_name j \<noteq> ingredient_name i) rest)"

definition plan_ingredients :: "plan_entry list \<Rightarrow> ingredient list" where
  "plan_ingredients meals =
     concat (map (\<lambda>meal. case extendedIngredients (entry_recipe meal) of
                            None \<Rightarrow> []
                          | Some list \<Rightarrow> list) meals)"

text \<open>The recipes in the non-null slots of one day, and of the seven days.\<close>

definition day_recipes :: "meal_plan \<Rightarrow> string \<Rightarrow> recipe list" where
  "day_recipes mealPlan day =
     (case map_of mealPlan day of
        None \<Rightarrow> []
      | Some dayMeals \<Rightarrow> concat (map (\<lambda>meal. case meal of None \<Rightarrow> [] | Some r \<Rightarrow> [r])
                                  (Object_values dayMeals)))"

definition week_recipes :: "meal_plan \<Rightarrow> recipe list" where
  "week_recipes mealPlan = concat (map (day_recipes mealPlan) weekDays)"

text \<open>
  The value of one nutrient of a recipe: the amount of the first nutrient entry of that
  name, rounded to the nearest integer, and 0 when the recipe has no such entry (or no
  nutrition data at all).
\<close>

definition nutrient_value :: "string \<Rightarrow> recipe \<Rightarrow> number" where
  "nutrient_value name recipe =
     (case recipe_nutrition recipe of
        None \<Rightarrow> Finite 0
      | Some nutrition \<Rightarrow>
          (case nutrients nutrition of
             None \<Rightarrow> Finite 0
           | Some list \<Rightarrow>
               (case find (\<lambda>n. nutrient_name n = name) list of
                  None \<Rightarrow> Finite 0
                | Some n \<Rightarrow> Math_round (nutrient_amount n))))"

text \<open>
  The total of one nutrient over a list of recipes, added up from 0 in the order of the
  list; over one day; and over the week.
\<close>

definition total_of :: "arithmetic \<Rightarrow> string \<Rightarrow> recipe list \<Rightarrow> number" where
  "total_of ar name recipes = foldl (js_plus ar) (Finite 0) (map (nutrient_value name) recipes)"

definition week_total :: "arithmetic \<Rightarrow> string \<Rightarrow> meal_plan \<Rightarrow> number" where
  "week_total ar name mealPlan = total_of ar name (week_recipes mealPlan)"

text \<open>Adding 0 changes no number: a property of the machine's addition.\<close>

definition zero_neutral :: "arithmetic \<Rightarrow> bool" where
  "zero_neutral ar = (\<forall>x. js_plus ar x (Finite 0) = x)"

text \<open>
  Two notions for comparing the \<^verbatim>\<open>Map\<close> of \<^verbatim>\<open>generateShoppingListFromMealPlan\<close> with the
  groups: the entries keyed by their names, and the accumulation of one more occurrence.
\<close>

definition keyed :: "generated_item list \<Rightarrow> (string \<times> generated_item) list" where
  "keyed gs = map (\<lambda>g. (gen_name g, g)) gs"

definition add_amount :: "arithmetic \<Rightarrow> ingredient \<Rightarrow> generated_item \<Rightarrow> generated_item" where
  "add_amount ar i g =
     (if gen_name g = ingredient_name i
      then g\<lparr>gen_amount := js_plus ar (gen_amount g) (amount_or_0 i)\<rparr>
      else g)"

section \<open>Example values\<close>

text \<open>A store with no record under any key, and a recipe with nothing but an id.\<close>

definition fresh :: storage where
  "fresh = \<lparr>FAVORITES = None, MEAL_PLAN = None, SHOPPING_LIST = None, RECENT_SEARCHES = None\<rparr>"

definition plain_recipe :: "int \<Rightarrow> recipe" where
  "plain_recipe n =
     \<lparr>recipe_id = n, recipe_title = [], recipe_nutrition = None, extendedIngredients = None\<rparr>"

text \<open>
  An arithmetic for the examples: the exact sum and quotient of finite numbers. (The
  machine's sum and quotient are exact whenever the exact result is a double, as it is in
  every example below.) A sum with \<^verbatim>\<open>NaN\<close> or an infinity is as for doubles; the
  quotients that no example uses are \<^verbatim>\<open>NaN\<close>.
\<close>

fun exact_plus :: "number \<Rightarrow> number \<Rightarrow> number" where
  "exact_plus (Finite a) (Finite b) = Finite (a + b)"
| "exact_plus NaN b = NaN"
| "exact_plus a NaN = NaN"
| "exact_plus PosInfinity NegInfinity = NaN"
| "exact_plus NegInfinity PosInfinity = NaN"
| "exact_plus PosInfinity b = PosInfinity"
| "exact_plus a PosInfinity = PosInfinity"
| "exact_plus NegInfinity b = NegInfinity"
| "exact_plus a NegInfinity = NegInfinity"

fun exact_divide :: "number \<Rightarrow> number \<Rightarrow> number" where
  "exact_divide (Finite a) (Finite b) = (if b = 0 then NaN else Finite (a / b))"
| "exact_divide a b = NaN"

definition exact :: arithmetic where
  "exact = \<lparr>js_plus = exact_plus, js_divide = exact_divide\<rparr>"

definition recipe_with_calories :: "int \<Rightarrow> rat \<Rightarrow> recipe" where
  "recipe_with_calories n kcal =
     \<lparr>recipe_id = n, recipe_title = [],
       recipe_nutrition =
         Some \<lparr>nutrients =
                 Some [\<lparr>nutrient_name = ''Calories'', nutrient_amount = Finite kcal\<rparr>]\<rparr>,
       extendedIngredients = None\<rparr>"

text \<open>A recipe with 455.4 kcal, 30.5 g protein, 50.49 g carbohydrates and no fat entry.\<close>

definition recipe_without_fat :: recipe where
  "recipe_without_fat =
     \<lparr>recipe_id = 7, recipe_title = [],
       recipe_nutrition =
         Some \<lparr>nutrients =
                 Some [\<lparr>nutrient_name = ''Calories'', nutrient_amount = Finite (4554 / 10)\<rparr>,
                       \<lparr>nutrient_name = ''Protein'', nutrient_amount = Finite (61 / 2)\<rparr>,
                       \<lparr>nutrient_name = ''Carbohydrates'',
                          nutrient_amount = Finite (5049 / 100)\<rparr>]\<rparr>,
       extendedIngredients = None\<rparr>"

definition recipe_with_ingredient :: "int \<Rightarrow> string \<Rightarrow> rat \<Rightarrow> string \<Rightarrow> recipe" where
  "recipe_with_ingredient n name amount unit_name =
     \<lparr>recipe_id = n, recipe_title = [], recipe_nutrition = None,
       extendedIngredients =
         Some [\<lparr>ingredient_name = name, ingredient_aisle = None,
                 ingredient_amount = Some (Finite amount), ingredient_unit = Some unit_name\<rparr>]\<rparr>"

text \<open>
  A week in which only Monday's meals carry nutrition data (400.4, 500 and 499.6 kcal);
  Friday's dinner has none.
\<close>

definition monday_store :: storage where
  "monday_store =
     populate
       [(True, ''monday'', ''breakfast'', recipe_with_calories 1 (2002 / 5)),
        (True, ''monday'', ''lunch'', recipe_with_calories 2 500),
        (True, ''monday'', ''dinner'', recipe_with_calories 3 (2498 / 5)),
        (True, ''friday'', ''dinner'', plain_recipe 4)] fresh"

text \<open>A plan with "Tomato" in two recipes and "tomato" in a third.\<close>

definition tomato_store :: storage where
  "tomato_store =
     populate
       [(True, ''monday'', ''lunch'', recipe_with_ingredient 1 ''Tomato'' 2 ''pcs''),
        (True, ''tuesday'', ''dinner'', recipe_with_ingredient 2 ''tomato'' 1 ''kg''),
        (True, ''friday'', ''breakfast'', recipe_with_ingredient 3 ''Tomato'' (3 / 2) ''g'')] fresh"

text \<open>Eleven searches, one more than the list keeps.\<close>

definition eleven_searches :: "(bool \<times> string) list" where
  "eleven_searches =
     [(True, ''a''), (True, ''b''), (True, ''c''), (True, ''d''), (True, ''e''), (True, ''f''),
      (True, ''g''), (True, ''h''), (True, ''i''), (True, ''j''), (True, ''k'')]"

section \<open>Favorites are unique by recipe id\<close>

lemma recipe_id_extend: "recipe_id (recipe.extend r ext) = recipe_id r"
  by (simp add: recipe.defs)

lemma getFavorites_store: "snd (getFavorites ls) = ls"
  by (simp add: getFavorites_def getFromStorage_def)

lemma getFavorites_list:
  "fst (getFavorites ls) = (case FAVORITES ls of Some favorites \<Rightarrow> favorites | None \<Rightarrow> [])"
  by (simp add: getFavorites_def getFromStorage_def)

lemma getFavorites_saved: "fst (getFavorites (ls\<lparr>FAVORITES := Some favorites\<rparr>)) = favorites"
  by (simp add: getFavorites_list)

lemma addToFavorites_eq:
  "addToFavorites ok now recipe ls =
     (if recipe_id recipe \<in> recipe_id ` set (fst (getFavorites ls)) then (False, ls)
      else (True,
            if ok
            then ls\<lparr>FAVORITES :=
                      Some (fst (getFavorites ls) @ [recipe.extend recipe (favorite.fields now)])\<rparr>
            else ls))"
proof -
  have "list_ex (\<lambda>fav. recipe_id fav = recipe_id recipe) (fst (getFavorites ls)) \<longleftrightarrow>
        recipe_id recipe \<in> recipe_id ` set (fst (getFavorites ls))"
    by (force simp: list_ex_iff)
  then show ?thesis
    by (simp add: addToFavorites_def saveToStorage_def Let_def case_prod_unfold
        getFavorites_store)
qed

lemma unique_addToFavorites:
  "unique_favorites ls \<Longrightarrow> unique_favorites (snd (addToFavorites ok now recipe ls))"
  by (auto simp: addToFavorites_eq unique_favorites_def getFavorites_saved recipe_id_extend)

lemma unique_removeFromFavorites:
  "unique_favorites ls \<Longrightarrow> unique_favorites (removeFromFavorites ok recipeId ls)"
  by (auto simp: removeFromFavorites_def unique_favorites_def getFavorites_def getFromStorage_def
      saveToStorage_def distinct_map_filter split: option.splits)

lemma unique_clearFavorites: "unique_favorites (clearFavorites ok ls) = (ok \<or> unique_favorites ls)"
  by (auto simp: clearFavorites_def unique_favorites_def getFavorites_def getFromStorage_def
      saveToStorage_def)

lemma unique_clearAllStorage: "unique_favorites (clearAllStorage ls)"
  by (simp add: clearAllStorage_def unique_favorites_def getFavorites_def getFromStorage_def)

lemma one_entry_of_distinct:
  "distinct (map f xs) \<Longrightarrow> a \<in> f ` set xs \<Longrightarrow> length (filter (\<lambda>x. f x = a) xs) = 1"
proof (induction xs)
  case Nil
  then show ?case by simp
next
  case (Cons x xs)
  show ?case
  proof (cases "f x = a")
    case True
    from Cons.prems(1) have "f x \<notin> f ` set xs" by simp
    with True have "\<And>y. y \<in> set xs \<Longrightarrow> f y \<noteq> a" by blast
    then have "filter (\<lambda>y. f y = a) xs = []"
      by (simp add: filter_empty_conv)
    with True show ?thesis by simp
  next
    case False
    with Cons show ?thesis by force
  qed
qed

lemma addToFavorites_twice:
  assumes u: "unique_favorites ls" and same: "recipe_id recipe' = recipe_id recipe"
  shows "fst (addToFavorites ok' now' recipe' (snd (addToFavorites True now recipe ls))) = False"
    and "length (filter (\<lambda>fav. recipe_id fav = recipe_id recipe)
           (fst (getFavorites
              (snd (addToFavorites ok' now' recipe' (snd (addToFavorites True now recipe ls))))))) = 1"
proof -
  let ?ls1 = "snd (addToFavorites True now recipe ls)"
  have mem: "recipe_id recipe \<in> recipe_id ` set (fst (getFavorites ?ls1))"
    by (auto simp: addToFavorites_eq getFavorites_saved recipe_id_extend)
  then have second: "addToFavorites ok' now' recipe' ?ls1 = (False, ?ls1)"
    using same by (subst addToFavorites_eq) simp
  show "fst (addToFavorites ok' now' recipe' ?ls1) = False"
    by (simp add: second)
  have "unique_favorites ?ls1"
    using u by (rule unique_addToFavorites)
  then have "distinct (map recipe_id (fst (getFavorites ?ls1)))"
    by (simp add: unique_favorites_def)
  from one_entry_of_distinct [OF this mem]
  show "length (filter (\<lambda>fav. recipe_id fav = recipe_id recipe)
           (fst (getFavorites (snd (addToFavorites ok' now' recipe' ?ls1))))) = 1"
    by (simp add: second)
qed

text \<open>
  Claim C1. \<^verbatim>\<open>addToFavorites\<close> returns false and leaves the store as it is when the
  recipe's id already occurs among the favorites; otherwise it returns true and appends the
  recipe with its \<^verbatim>\<open>addedAt\<close> stamp (the record is stored when \<^verbatim>\<open>localStorage\<close> accepts
  the write, and the store stays as it was when it does not). In a store whose favorites
  are unique by id, a second call with the same id after a stored first call returns false
  and exactly one favorite has that id. Uniqueness by id is kept by \<^verbatim>\<open>addToFavorites\<close>,
  \<^verbatim>\<open>removeFromFavorites\<close>, \<^verbatim>\<open>clearFavorites\<close> and \<^verbatim>\<open>clearAllStorage\<close>.
\<close>

theorem favorites_unique_by_id:
  "addToFavorites ok now recipe ls =
     (if recipe_id recipe \<in> recipe_id ` set (fst (getFavorites ls)) then (False, ls)
      else (True,
            if ok
            then ls\<lparr>FAVORITES :=
                      Some (fst (getFavorites ls) @ [recipe.extend recipe (favorite.fields now)])\<rparr>
            else ls))
   \<and> (unique_favorites ls \<and> recipe_id recipe' = recipe_id recipe \<longrightarrow>
        fst (addToFavorites ok' now' recipe' (snd (addToFavorites True now recipe ls))) = False
        \<and> length (filter (\<lambda>fav. recipe_id fav = recipe_id recipe)
             (fst (getFavorites
                (snd (addToFavorites ok' now' recipe'
                   (snd (addToFavorites True now recipe ls))))))) = 1)
   \<and> (unique_favorites ls \<longrightarrow>
        unique_favorites (snd (addToFavorites ok now recipe ls))
        \<and> unique_favorites (removeFromFavorites ok recipeId ls)
        \<and> unique_favorites (clearFavorites ok ls)
        \<and> unique_favorites (clearAllStorage ls))"
  using addToFavorites_eq [of ok now recipe ls] addToFavorites_twice [of ls recipe' recipe]
    unique_addToFavorites [of ls] unique_removeFromFavorites [of ls]
    unique_clearFavorites [of ok ls] unique_clearAllStorage [of ls]
  by blast

theorem favorites_unique_by_id_witness:
  "unique_favorites fresh
   \<and> addToFavorites True 5 (plain_recipe 1) fresh =
       (True, fresh\<lparr>FAVORITES := Some [recipe.extend (plain_recipe 1) (favorite.fields 5)]\<rparr>)
   \<and> fst (addToFavorites True 6 (plain_recipe 1)
            (snd (addToFavorites True 5 (plain_recipe 1) fresh))) = False
   \<and> length (filter (\<lambda>fav. recipe_id fav = 1)
        (fst (getFavorites
           (snd (addToFavorites True 6 (plain_recipe 1)
              (snd (addToFavorites True 5 (plain_recipe 1) fresh))))))) = 1
   \<and> unique_favorites (snd (addToFavorites True 5 (plain_recipe 1) fresh))"
proof -
  have u: "unique_favorites fresh"
    by (simp add: unique_favorites_def getFavorites_list fresh_def)
  have i: "recipe_id (plain_recipe 1) = 1"
    by (simp add: plain_recipe_def)
  have e: "fst (getFavorites fresh) = []"
    by (simp add: getFavorites_list fresh_def)
  show ?thesis
    using u i e
      favorites_unique_by_id [where ls = fresh and recipe = "plain_recipe 1"
        and recipe' = "plain_recipe 1" and ok = True and now = 5 and ok' = True and now' = 6
        and recipeId = 1]
    by auto
qed

section \<open>Shopping item ids\<close>

lemma getShoppingList_store: "snd (getShoppingList ls) = ls"
  by (simp add: getShoppingList_def getFromStorage_def)

lemma getShoppingList_list:
  "fst (getShoppingList ls) = (case SHOPPING_LIST ls of Some list \<Rightarrow> list | None \<Rightarrow> [])"
  by (simp add: getShoppingList_def getFromStorage_def)

lemma addToShoppingList_eq:
  "addToShoppingList ok now_id now_added item ls =
     (if toLowerCase (new_name item) \<in> (\<lambda>i. toLowerCase (item_name i)) ` set (fst (getShoppingList ls))
      then (False, ls)
      else (True,
            if ok
            then ls\<lparr>SHOPPING_LIST :=
                      Some (fst (getShoppingList ls) @
                        [\<lparr>item_id = now_id, item_name = new_name item,
                          item_category = or_else (new_category item) ''other'',
                          item_checked = False, item_addedAt = now_added\<rparr>])\<rparr>
            else ls))"
proof -
  have "list_ex (\<lambda>i. toLowerCase (item_name i) = toLowerCase (new_name item))
          (fst (getShoppingList ls)) \<longleftrightarrow>
        toLowerCase (new_name item) \<in> (\<lambda>i. toLowerCase (item_name i)) ` set (fst (getShoppingList ls))"
    by (force simp: list_ex_iff)
  then show ?thesis
    by (simp add: addToShoppingList_def saveToStorage_def Let_def case_prod_unfold
        getShoppingList_store)
qed

text \<open>
  Claim C2 asks that no two items of the shopping list share an id. The id is the clock
  reading \<^verbatim>\<open>Date.now()\<close>, so two items added within one millisecond get the same id:
  here "Milk" and "Eggs", both added at clock reading 1000 to a fresh store. Removing
  "the" item with id 1000 then removes both.
\<close>

theorem shopping_item_ids_collide:
  "addToShoppingList True 1000 1000 \<lparr>new_name = ''Eggs'', new_category = None\<rparr>
     (snd (addToShoppingList True 1000 1000 \<lparr>new_name = ''Milk'', new_category = None\<rparr> fresh)) =
   (True,
    fresh\<lparr>SHOPPING_LIST := Some
      [\<lparr>item_id = 1000, item_name = ''Milk'', item_category = ''other'', item_checked = False,
         item_addedAt = 1000\<rparr>,
       \<lparr>item_id = 1000, item_name = ''Eggs'', item_category = ''other'', item_checked = False,
         item_addedAt = 1000\<rparr>]\<rparr>)
   \<and> removeFromShoppingList True 1000
       (fresh\<lparr>SHOPPING_LIST := Some
          [\<lparr>item_id = 1000, item_name = ''Milk'', item_category = ''other'',
             item_checked = False, item_addedAt = 1000\<rparr>,
           \<lparr>item_id = 1000, item_name = ''Eggs'', item_category = ''other'',
             item_checked = False, item_addedAt = 1000\<rparr>]\<rparr>) =
     fresh\<lparr>SHOPPING_LIST := Some []\<rparr>"
  by (simp add: addToShoppingList_eq getShoppingList_list fresh_def toLowerCase_def
      toLowerCase_char_def or_else_def removeFromShoppingList_def getShoppingList_def
      getFromStorage_def saveToStorage_def)

section \<open>The meal plan\<close>

lemma getMealPlan_store: "snd (getMealPlan ls) = ls"
  by (simp add: getMealPlan_def getFromStorage_def)

lemma getMealPlan_plan:
  "fst (getMealPlan ls) = (case MEAL_PLAN ls of Some mealPlan \<Rightarrow> mealPlan | None \<Rightarrow> emptyPlan)"
  by (simp add: getMealPlan_def getFromStorage_def)

lemma getMealPlan_saved: "fst (getMealPlan (ls\<lparr>MEAL_PLAN := Some mealPlan\<rparr>)) = mealPlan"
  by (simp add: getMealPlan_plan)

lemma Object_keys_Nil: "Object_keys [] = []"
  by (simp add: Object_keys_def)

lemma Object_keys_Cons: "Object_keys (p # obj) = fst p # Object_keys obj"
  by (simp add: Object_keys_def)

lemma update_own_Nil: "update_own k v [] = []"
  by (simp add: update_own_def)

lemma update_own_Cons:
  "update_own k v (p # obj) = (if fst p = k then (fst p, v) else p) # update_own k v obj"
  by (simp add: update_own_def case_prod_unfold)

lemma keys_update_own: "Object_keys (update_own k v obj) = Object_keys obj"
  by (induction obj) (simp_all add: Object_keys_Nil Object_keys_Cons update_own_Nil update_own_Cons)

lemma map_of_update_own:
  "map_of (update_own k v obj) k' =
     (if k' = k \<and> k \<in> set (Object_keys obj) then Some v else map_of obj k')"
proof (induction obj)
  case Nil
  show ?case by (simp add: update_own_Nil Object_keys_Nil)
next
  case (Cons p obj)
  obtain a b where p: "p = (a, b)" by (cases p)
  from Cons show ?case
    by (auto simp: p update_own_Cons Object_keys_Cons split: if_splits)
qed

lemma map_of_append_new:
  "k \<notin> set (Object_keys obj) \<Longrightarrow>
   map_of (obj @ [(k, v)]) k' = (if k' = k then Some v else map_of obj k')"
proof (induction obj)
  case Nil
  show ?case by simp
next
  case (Cons p obj)
  obtain a b where p: "p = (a, b)" by (cases p)
  from Cons show ?case
    by (auto simp: p Object_keys_Cons split: if_splits)
qed

lemma map_of_insert_index:
  "k \<notin> set (Object_keys obj) \<Longrightarrow>
   map_of (insert_index n k v obj) k' = (if k' = k then Some v else map_of obj k')"
proof (induction obj)
  case Nil
  show ?case by simp
next
  case (Cons p obj)
  obtain a b where p: "p = (a, b)" by (cases p)
  from Cons show ?case
    by (cases "array_index a") (auto simp: p Object_keys_Cons split: if_splits)
qed

lemma map_of_set_property:
  "map_of (set_property k v obj) k' =
     (if k' = k \<and> (k \<noteq> ''__proto__'' \<or> k \<in> set (Object_keys obj)) then Some v
      else map_of obj k')"
proof (cases "k \<in> set (Object_keys obj)")
  case True
  then show ?thesis
    by (simp add: set_property_def map_of_update_own)
next
  case False
  then show ?thesis
    by (cases "array_index k")
      (simp_all add: set_property_def map_of_append_new map_of_insert_index del: map_of_append)
qed

lemma keys_set_property_own:
  "k \<in> set (Object_keys obj) \<Longrightarrow> Object_keys (set_property k v obj) = Object_keys obj"
  by (simp add: set_property_def keys_update_own)

lemma map_of_own_key: "k \<in> set (Object_keys obj) \<Longrightarrow> \<exists>v. map_of obj k = Some v"
  by (induction obj) (auto simp: Object_keys_Nil Object_keys_Cons)

lemma addMealToPlan_own:
  assumes "map_of (fst (getMealPlan ls)) day = Some dayMeals"
  shows "addMealToPlan ok day mealType recipe ls =
     (Returns True,
      if ok
      then ls\<lparr>MEAL_PLAN :=
                Some (update_own day (set_property mealType (Some recipe) dayMeals)
                        (fst (getMealPlan ls)))\<rparr>
      else ls)"
  using assms
  by (simp add: addMealToPlan_def get_property_def saveToStorage_def case_prod_unfold
      getMealPlan_store Let_def)

lemma addMealToPlan_undefined:
  assumes "day \<notin> set (Object_keys (fst (getMealPlan ls)))" "day \<notin> set Object_prototype_names"
  shows "addMealToPlan ok day mealType recipe ls = (Returns False, ls)"
proof -
  from assms(1) have "map_of (fst (getMealPlan ls)) day = None"
    by (simp add: map_of_eq_None_iff Object_keys_def)
  with assms(2) show ?thesis
    by (simp add: addMealToPlan_def get_property_def case_prod_unfold getMealPlan_store)
qed

lemma has_week_days_own:
  assumes "has_week_days mealPlan" "day \<in> set weekDays"
  shows "\<exists>dayMeals. map_of mealPlan day = Some dayMeals"
proof -
  from assms have "day \<in> set (Object_keys mealPlan)"
    by (simp add: has_week_days_def list_all_iff)
  then show ?thesis by (rule map_of_own_key)
qed

lemma has_week_days_emptyPlan: "has_week_days emptyPlan"
  by (simp add: has_week_days_def emptyPlan_def weekDays_def Object_keys_def)

lemma slot_after_add:
  assumes "map_of (fst (getMealPlan ls)) day = Some dayMeals"
    and "mealType \<noteq> ''__proto__'' \<or> mealType \<in> set (Object_keys dayMeals)"
  shows "slot (fst (getMealPlan (snd (addMealToPlan ok day mealType recipe ls)))) d m =
     (if ok \<and> d = day \<and> m = mealType then Some recipe else slot (fst (getMealPlan ls)) d m)"
proof -
  from assms(1) have "day \<in> set (Object_keys (fst (getMealPlan ls)))"
    by (auto simp: Object_keys_def dest: map_of_SomeD intro: rev_image_eqI)
  with assms show ?thesis
    by (auto simp: addMealToPlan_own getMealPlan_saved slot_def map_of_update_own
        map_of_set_property)
qed

text \<open>
  Claim C3 asks that every day string other than the seven week days is refused.
  \<^verbatim>\<open>addMealToPlan\<close> tests \<^verbatim>\<open>!mealPlan[day]\<close>, and \<^verbatim>\<open>mealPlan['constructor']\<close> is the
  function inherited from \<^verbatim>\<open>Object.prototype\<close>: the call returns true, and on a store with
  no meal plan it writes the all-null default plan.
\<close>

theorem invalid_day_accepted:
  "''constructor'' \<notin> set weekDays \<and>
   addMealToPlan True ''constructor'' ''lunch'' (plain_recipe 1) fresh =
     (Returns True, fresh\<lparr>MEAL_PLAN := Some emptyPlan\<rparr>)"
  by (simp add: weekDays_def addMealToPlan_def getMealPlan_def getFromStorage_def fresh_def
      get_property_def emptyPlan_def Object_prototype_names_def builtin_assignment_throws_def
      saveToStorage_def)

text \<open>
  Claim C4, as stated, fails for the meal type \<^verbatim>\<open>__proto__\<close>: the call returns true, and
  the stored plan holds the recipe nowhere.
\<close>

theorem proto_mealType_not_persisted:
  "''monday'' \<in> set weekDays
   \<and> addMealToPlan True ''monday'' ''__proto__'' (plain_recipe 1) fresh =
       (Returns True, fresh\<lparr>MEAL_PLAN := Some emptyPlan\<rparr>)
   \<and> slot (fst (getMealPlan
          (snd (addMealToPlan True ''monday'' ''__proto__'' (plain_recipe 1) fresh))))
        ''monday'' ''__proto__'' = None"
  by (simp add: addMealToPlan_def getMealPlan_def getFromStorage_def fresh_def
      get_property_def emptyPlan_def emptyDay_def set_property_def update_own_def Object_keys_def
      saveToStorage_def weekDays_def slot_def)

lemma holds_key_own:
  "map_of mealPlan day = Some dayMeals \<Longrightarrow>
   holds_key mealPlan day mealType = (mealType \<in> set (Object_keys dayMeals))"
  by (simp add: holds_key_def)

lemma slot_after_any_add:
  assumes "map_of (fst (getMealPlan ls)) day = Some dayMeals"
  shows "slot (fst (getMealPlan (snd (addMealToPlan True day mealType recipe ls)))) d m =
     (if d = day \<and> m = mealType
         \<and> (mealType \<noteq> ''__proto__'' \<or> holds_key (fst (getMealPlan ls)) day mealType)
      then Some recipe else slot (fst (getMealPlan ls)) d m)"
proof -
  from assms have "day \<in> set (Object_keys (fst (getMealPlan ls)))"
    by (auto simp: Object_keys_def dest: map_of_SomeD intro: rev_image_eqI)
  with assms show ?thesis
    by (auto simp: addMealToPlan_own getMealPlan_saved slot_def map_of_update_own
        map_of_set_property holds_key_own)
qed

lemma has_week_days_add:
  assumes "has_week_days (fst (getMealPlan ls))"
  shows "has_week_days (fst (getMealPlan (snd (addMealToPlan ok day mealType recipe ls))))"
proof (cases "map_of (fst (getMealPlan ls)) day")
  case None
  with assms show ?thesis
    by (cases ok)
      (simp_all add: addMealToPlan_def get_property_def saveToStorage_def case_prod_unfold
        getMealPlan_store getMealPlan_saved Let_def)
next
  case (Some dayMeals)
  with assms show ?thesis
    by (simp add: addMealToPlan_own getMealPlan_saved has_week_days_def keys_update_own)
qed

lemma has_week_days_absent: "MEAL_PLAN ls = None \<Longrightarrow> has_week_days (fst (getMealPlan ls))"
  by (simp add: getMealPlan_plan has_week_days_emptyPlan)

lemma brunch_breaks_shape:
  "\<not> three_slot_plan
       (fst (getMealPlan (snd (addMealToPlan True ''monday'' ''brunch'' (plain_recipe 1) fresh))))"
  by code_simp

text \<open>
  Claim C4, amended. \<^verbatim>\<open>addMealToPlan\<close> validates only the day, not the meal type. The
  plan holds the seven week days: the default plan does, and every call keeps them. On
  such a plan, for every week day and every meal type whatsoever the call returns true;
  when \<^verbatim>\<open>localStorage\<close> refuses the write the store is unchanged, and when it accepts it
  the stored plan holds the recipe under \<^verbatim>\<open>mealPlan[day][mealType]\<close> and every other slot
  as before, except for the meal type \<^verbatim>\<open>__proto__\<close> on a day object that has no own
  property of that name, where every slot is as before. So slots other than breakfast, lunch
  and dinner can be created: after adding "brunch" to monday the plan no longer has the
  three-slot shape.
\<close>

theorem mealType_not_validated:
  "(has_week_days (fst (getMealPlan ls)) \<and> day \<in> set weekDays \<longrightarrow>
      fst (addMealToPlan ok day mealType recipe ls) = Returns True
      \<and> snd (addMealToPlan False day mealType recipe ls) = ls
      \<and> slot (fst (getMealPlan (snd (addMealToPlan True day mealType recipe ls)))) d m =
          (if d = day \<and> m = mealType
              \<and> (mealType \<noteq> ''__proto__'' \<or> holds_key (fst (getMealPlan ls)) day mealType)
           then Some recipe else slot (fst (getMealPlan ls)) d m))
   \<and> (MEAL_PLAN ls = None \<longrightarrow> has_week_days (fst (getMealPlan ls)))
   \<and> (has_week_days (fst (getMealPlan ls)) \<longrightarrow>
        has_week_days (fst (getMealPlan (snd (addMealToPlan ok' day' mealType' recipe' ls)))))
   \<and> \<not> three_slot_plan
         (fst (getMealPlan
            (snd (addMealToPlan True ''monday'' ''brunch'' (plain_recipe 1) fresh))))"
proof (intro conjI impI)
  assume h: "has_week_days (fst (getMealPlan ls)) \<and> day \<in> set weekDays"
  then obtain dayMeals where d: "map_of (fst (getMealPlan ls)) day = Some dayMeals"
    using has_week_days_own by blast
  show "fst (addMealToPlan ok day mealType recipe ls) = Returns True"
    by (simp add: addMealToPlan_own [OF d])
  show "snd (addMealToPlan False day mealType recipe ls) = ls"
    by (simp add: addMealToPlan_own [OF d])
  show "slot (fst (getMealPlan (snd (addMealToPlan True day mealType recipe ls)))) d m =
          (if d = day \<and> m = mealType
              \<and> (mealType \<noteq> ''__proto__'' \<or> holds_key (fst (getMealPlan ls)) day mealType)
           then Some recipe else slot (fst (getMealPlan ls)) d m)"
    using d by (rule slot_after_any_add)
next
  assume "MEAL_PLAN ls = None"
  then show "has_week_days (fst (getMealPlan ls))"
    by (rule has_week_days_absent)
next
  assume "has_week_days (fst (getMealPlan ls))"
  then show "has_week_days
      (fst (getMealPlan (snd (addMealToPlan ok' day' mealType' recipe' ls))))"
    by (rule has_week_days_add)
next
  show "\<not> three_slot_plan
         (fst (getMealPlan
            (snd (addMealToPlan True ''monday'' ''brunch'' (plain_recipe 1) fresh))))"
    by (rule brunch_breaks_shape)
qed

theorem mealType_not_validated_witness:
  "has_week_days (fst (getMealPlan fresh)) \<and> ''monday'' \<in> set weekDays
   \<and> MEAL_PLAN fresh = None
   \<and> fst (addMealToPlan True ''monday'' ''brunch'' (plain_recipe 1) fresh) = Returns True
   \<and> snd (addMealToPlan False ''monday'' ''brunch'' (plain_recipe 1) fresh) = fresh
   \<and> slot (fst (getMealPlan (snd (addMealToPlan True ''monday'' ''brunch'' (plain_recipe 1) fresh))))
        ''monday'' ''brunch'' = Some (plain_recipe 1)
   \<and> slot (fst (getMealPlan
          (snd (addMealToPlan True ''monday'' ''__proto__'' (plain_recipe 1) fresh))))
        ''monday'' ''__proto__'' = slot (fst (getMealPlan fresh)) ''monday'' ''__proto__''
   \<and> has_week_days
        (fst (getMealPlan (snd (addMealToPlan True ''monday'' ''brunch'' (plain_recipe 1) fresh))))"
proof -
  have n: "MEAL_PLAN fresh = None"
    by (simp add: fresh_def)
  have h: "has_week_days (fst (getMealPlan fresh))"
    by (simp add: getMealPlan_plan fresh_def has_week_days_emptyPlan)
  have w: "''monday'' \<in> set weekDays"
    by (simp add: weekDays_def)
  have k: "\<not> holds_key (fst (getMealPlan fresh)) ''monday'' ''__proto__''"
    by code_simp
  note brunch = mealType_not_validated [where ls = fresh and day = "''monday''"
      and mealType = "''brunch''" and ok = True and recipe = "plain_recipe 1"
      and d = "''monday''" and m = "''brunch''" and ok' = True and day' = "''monday''"
      and mealType' = "''brunch''" and recipe' = "plain_recipe 1"]
  note proto = mealType_not_validated [where ls = fresh and day = "''monday''"
      and mealType = "''__proto__''" and ok = True and recipe = "plain_recipe 1"
      and d = "''monday''" and m = "''__proto__''" and ok' = True and day' = "''monday''"
      and mealType' = "''brunch''" and recipe' = "plain_recipe 1"]
  from n h w k brunch proto show ?thesis
    by simp
qed

text \<open>
  Claim C5. On a store with no meal-plan record \<^verbatim>\<open>getMealPlan\<close> returns the seven week
  days in order, each with the slots breakfast, lunch and dinner all null: 21 slots, all
  null. The store it leaves is the store it was given, so the record is still absent.
\<close>

theorem default_plan:
  "MEAL_PLAN ls = None \<longrightarrow>
     Object_keys (fst (getMealPlan ls)) =
       [''monday'', ''tuesday'', ''wednesday'', ''thursday'', ''friday'', ''saturday'', ''sunday'']
     \<and> list_all (\<lambda>d. snd d = [(''breakfast'', None), (''lunch'', None), (''dinner'', None)])
         (fst (getMealPlan ls))
     \<and> length (concat (Object_values (fst (getMealPlan ls)))) = 21
     \<and> list_all (\<lambda>s. snd s = None) (concat (Object_values (fst (getMealPlan ls))))
     \<and> snd (getMealPlan ls) = ls
     \<and> MEAL_PLAN (snd (getMealPlan ls)) = None"
  by (simp add: getMealPlan_def getFromStorage_def emptyPlan_def emptyDay_def Object_keys_def
      Object_values_def)

theorem default_plan_witness:
  "MEAL_PLAN fresh = None
   \<and> Object_keys (fst (getMealPlan fresh)) =
       [''monday'', ''tuesday'', ''wednesday'', ''thursday'', ''friday'', ''saturday'', ''sunday'']
   \<and> length (concat (Object_values (fst (getMealPlan fresh)))) = 21
   \<and> snd (getMealPlan fresh) = fresh"
proof -
  have "MEAL_PLAN fresh = None"
    by (simp add: fresh_def)
  with default_plan [of fresh] show ?thesis by blast
qed

section \<open>Categories\<close>

lemma categorize_first_match:
  "categorizeIngredient aisle = first_match_category (or_else aisle [])"
  by (simp add: categorizeIngredient_def first_match_category_def category_rules_def Let_def)

lemma fresh_basil_produce: "categorizeIngredient (Some ''fresh basil'') = ''produce''"
  by (simp add: categorizeIngredient_def or_else_def toLowerCase_def toLowerCase_char_def
      match_def produce_words_def)

lemma basil_spices: "categorizeIngredient (Some ''basil'') = ''spices''"
  by (simp add: categorizeIngredient_def or_else_def toLowerCase_def toLowerCase_char_def
      match_def produce_words_def meat_words_def dairy_words_def grains_words_def spices_words_def)

text \<open>
  Claim C8. \<^verbatim>\<open>categorizeIngredient\<close> lower-cases its input (a missing input is the empty
  string) and returns the category of the first rule, in the order produce, meat, dairy,
  grains, spices, pantry, whose pattern matches, and "other" when none does. "fresh basil"
  is produce, although "basil" alone is a spice.
\<close>

theorem categorizeIngredient_first_match:
  "categorizeIngredient aisle = first_match_category (or_else aisle [])
   \<and> map fst category_rules =
       [''produce'', ''meat'', ''dairy'', ''grains'', ''spices'', ''pantry'']
   \<and> categorizeIngredient (Some ''fresh basil'') = ''produce''
   \<and> categorizeIngredient (Some ''basil'') = ''spices''"
  using categorize_first_match [of aisle] fresh_basil_produce basil_spices
  by (simp add: category_rules_def)

section \<open>The order of the meals\<close>

lemma three_slot_emptyPlan: "three_slot_plan emptyPlan"
  by (simp add: three_slot_plan_def emptyPlan_def emptyDay_def weekDays_def mealTypes_def
      Object_keys_def)

lemma three_slot_day:
  assumes "three_slot_plan mealPlan" "day \<in> set weekDays"
  shows "\<exists>dayMeals. map_of mealPlan day = Some dayMeals \<and> Object_keys dayMeals = mealTypes"
proof -
  from assms have "day \<in> set (Object_keys mealPlan)"
    by (simp add: three_slot_plan_def)
  then obtain dayMeals where d: "map_of mealPlan day = Some dayMeals"
    using map_of_own_key by blast
  then have "(day, dayMeals) \<in> set mealPlan"
    by (rule map_of_SomeD)
  with assms(1) have "Object_keys dayMeals = mealTypes"
    by (auto simp: three_slot_plan_def list_all_iff)
  with d show ?thesis by blast
qed

lemma slot_entries:
  "(\<lambda>mealType. case map_of dayMeals mealType of
       Some (Some meal) \<Rightarrow> [\<lparr>entry_day = day, entry_mealType = mealType, entry_recipe = meal\<rparr>]
     | _ \<Rightarrow> []) =
   (\<lambda>mealType. case (case map_of dayMeals mealType of None \<Rightarrow> None | Some meal \<Rightarrow> meal) of
       None \<Rightarrow> []
     | Some meal \<Rightarrow> [\<lparr>entry_day = day, entry_mealType = mealType, entry_recipe = meal\<rparr>])"
  by (rule ext) (simp split: option.splits)

lemma getAllMeals_three_slot:
  assumes "three_slot_plan (fst (getMealPlan ls))"
  shows "fst (getAllMealsFromPlan ls) = meals_in_order (fst (getMealPlan ls))"
proof -
  let ?p = "fst (getMealPlan ls)"
  have keys: "Object_keys ?p = weekDays"
    using assms by (simp add: three_slot_plan_def)
  have day: "(case map_of ?p day of
        None \<Rightarrow> []
      | Some dayMeals \<Rightarrow>
          concat (map (\<lambda>mealType.
            case map_of dayMeals mealType of
              Some (Some meal) \<Rightarrow>
                [\<lparr>entry_day = day, entry_mealType = mealType, entry_recipe = meal\<rparr>]
            | _ \<Rightarrow> []) (Object_keys dayMeals))) =
      concat (map (\<lambda>mealType.
         case slot ?p day mealType of
           None \<Rightarrow> []
         | Some meal \<Rightarrow> [\<lparr>entry_day = day, entry_mealType = mealType, entry_recipe = meal\<rparr>])
         mealTypes)" if "day \<in> set weekDays" for day
  proof -
    from three_slot_day [OF assms that] obtain dayMeals
      where "map_of ?p day = Some dayMeals" "Object_keys dayMeals = mealTypes" by blast
    then show ?thesis
      by (simp add: slot_def slot_entries)
  qed
  have "fst (getAllMealsFromPlan ls) =
      concat (map (\<lambda>day. case map_of ?p day of
        None \<Rightarrow> []
      | Some dayMeals \<Rightarrow>
          concat (map (\<lambda>mealType.
            case map_of dayMeals mealType of
              Some (Some meal) \<Rightarrow>
                [\<lparr>entry_day = day, entry_mealType = mealType, entry_recipe = meal\<rparr>]
            | _ \<Rightarrow> []) (Object_keys dayMeals))) weekDays)"
    by (simp add: getAllMealsFromPlan_def case_prod_unfold Let_def keys)
  also have "\<dots> = meals_in_order ?p"
    unfolding meals_in_order_def
    by (rule arg_cong [where f = concat], rule map_cong, rule refl, rule day)
  finally show ?thesis .
qed

lemma list_all_update_own:
  "list_all P obj \<Longrightarrow> (\<And>k'. P (k', v)) \<Longrightarrow> list_all P (update_own k v obj)"
  by (induction obj) (auto simp: update_own_Nil update_own_Cons)

lemma three_slot_add:
  assumes t: "three_slot_plan (fst (getMealPlan ls))"
    and c: "day \<in> set weekDays" "mealType \<in> set mealTypes"
  shows "three_slot_plan (fst (getMealPlan (snd (addMealToPlan ok day mealType recipe ls))))"
proof -
  from three_slot_day [OF t c(1)] obtain dayMeals
    where d: "map_of (fst (getMealPlan ls)) day = Some dayMeals"
      and k: "Object_keys dayMeals = mealTypes" by blast
  from c(2) k have own: "mealType \<in> set (Object_keys dayMeals)" by simp
  have "Object_keys (set_property mealType (Some recipe) dayMeals) = mealTypes"
    using own k by (simp add: keys_set_property_own)
  then have "list_all (\<lambda>d. Object_keys (snd d) = mealTypes)
      (update_own day (set_property mealType (Some recipe) dayMeals) (fst (getMealPlan ls)))"
    using t by (auto simp: three_slot_plan_def intro: list_all_update_own)
  with t show ?thesis
    by (simp add: addMealToPlan_own [OF d] getMealPlan_saved three_slot_plan_def keys_update_own)
qed

lemma slot_add_standard:
  assumes t: "three_slot_plan (fst (getMealPlan ls))"
    and c: "day \<in> set weekDays" "mealType \<in> set mealTypes"
  shows "slot (fst (getMealPlan (snd (addMealToPlan ok day mealType recipe ls)))) d m =
     (if ok \<and> d = day \<and> m = mealType then Some recipe else slot (fst (getMealPlan ls)) d m)"
proof -
  from three_slot_day [OF t c(1)] obtain dayMeals
    where d: "map_of (fst (getMealPlan ls)) day = Some dayMeals"
      and k: "Object_keys dayMeals = mealTypes" by blast
  from c(2) k have "mealType \<noteq> ''__proto__'' \<or> mealType \<in> set (Object_keys dayMeals)" by simp
  from slot_after_add [OF d this] show ?thesis .
qed

lemma populate_Nil: "populate [] ls = ls"
  by (simp add: populate_def)

lemma populate_Cons:
  "populate (c # calls) ls =
     populate calls
       (snd (addMealToPlan (fst c) (fst (call_slot c)) (snd (call_slot c)) (snd (snd (snd c))) ls))"
  by (simp add: populate_def call_slot_def case_prod_unfold)

lemma three_slot_populate:
  "three_slot_plan (fst (getMealPlan ls)) \<Longrightarrow> list_all standard_call calls \<Longrightarrow>
   three_slot_plan (fst (getMealPlan (populate calls ls)))"
proof (induction calls arbitrary: ls)
  case Nil
  then show ?case by (simp add: populate_Nil)
next
  case (Cons c calls)
  from Cons.prems have s: "fst (call_slot c) \<in> set weekDays" "snd (call_slot c) \<in> set mealTypes"
    by (simp_all add: standard_call_def)
  have "three_slot_plan (fst (getMealPlan
      (snd (addMealToPlan (fst c) (fst (call_slot c)) (snd (call_slot c)) (snd (snd (snd c))) ls))))"
    using Cons.prems(1) s by (rule three_slot_add)
  from Cons.IH [OF this] Cons.prems(2) show ?case
    by (simp add: populate_Cons)
qed

lemma slot_populate:
  "three_slot_plan (fst (getMealPlan ls)) \<Longrightarrow> list_all standard_call calls \<Longrightarrow>
   distinct (map call_slot calls) \<Longrightarrow>
   slot (fst (getMealPlan (populate calls ls))) d m =
     (case find (\<lambda>c. call_slot c = (d, m)) calls of
        Some c \<Rightarrow> if fst c then Some (snd (snd (snd c))) else slot (fst (getMealPlan ls)) d m
      | None \<Rightarrow> slot (fst (getMealPlan ls)) d m)"
proof (induction calls arbitrary: ls)
  case Nil
  then show ?case by (simp add: populate_Nil)
next
  case (Cons c calls)
  let ?ls1 = "snd (addMealToPlan (fst c) (fst (call_slot c)) (snd (call_slot c))
                (snd (snd (snd c))) ls)"
  from Cons.prems have s: "fst (call_slot c) \<in> set weekDays" "snd (call_slot c) \<in> set mealTypes"
    by (simp_all add: standard_call_def)
  have t1: "three_slot_plan (fst (getMealPlan ?ls1))"
    using Cons.prems(1) s by (rule three_slot_add)
  have s1: "slot (fst (getMealPlan ?ls1)) d m =
      (if fst c \<and> d = fst (call_slot c) \<and> m = snd (call_slot c) then Some (snd (snd (snd c)))
       else slot (fst (getMealPlan ls)) d m)"
    using Cons.prems(1) s by (rule slot_add_standard)
  from Cons.prems have rest: "list_all standard_call calls" "distinct (map call_slot calls)"
    by simp_all
  note ih = Cons.IH [OF t1 rest]
  show ?case
  proof (cases "call_slot c = (d, m)")
    case True
    from Cons.prems(3) have "call_slot c \<notin> call_slot ` set calls"
      by simp
    with True have "\<And>c'. c' \<in> set calls \<Longrightarrow> call_slot c' \<noteq> (d, m)"
      by (metis imageI)
    then have "find (\<lambda>c. call_slot c = (d, m)) calls = None"
      by (simp add: find_None_iff)
    with True ih s1 show ?thesis
      by (auto simp: populate_Cons)
  next
    case False
    then have "\<not> (d = fst (call_slot c) \<and> m = snd (call_slot c))"
      by auto
    with s1 have s1': "slot (fst (getMealPlan ?ls1)) d m = slot (fst (getMealPlan ls)) d m"
      by simp
    from False have f: "find (\<lambda>c. call_slot c = (d, m)) (c # calls) =
        find (\<lambda>c. call_slot c = (d, m)) calls"
      by simp
    show ?thesis
      by (simp only: populate_Cons ih s1' f)
  qed
qed

lemma find_Some_distinct:
  "distinct (map f xs) \<Longrightarrow> (find (\<lambda>c. f c = s) xs = Some c) = (c \<in> set xs \<and> f c = s)"
  by (induction xs) (auto simp: image_iff)

lemma find_same_set:
  assumes "distinct (map f xs)" "distinct (map f ys)" "set xs = set ys"
  shows "find (\<lambda>c. f c = s) xs = find (\<lambda>c. f c = s) ys"
proof (cases "find (\<lambda>c. f c = s) xs")
  case None
  then have "\<And>c. c \<in> set ys \<Longrightarrow> f c \<noteq> s"
    using assms(3) by (auto simp: find_None_iff)
  then have "find (\<lambda>c. f c = s) ys = None"
    by (simp add: find_None_iff)
  with None show ?thesis by simp
next
  case (Some c)
  then have "c \<in> set ys \<and> f c = s"
    using assms(1,3) by (simp add: find_Some_distinct)
  then have "find (\<lambda>c. f c = s) ys = Some c"
    using assms(2) by (simp add: find_Some_distinct)
  with Some show ?thesis by simp
qed

lemma meals_in_order_slots:
  "(\<And>d m. slot p d m = slot q d m) \<Longrightarrow> meals_in_order p = meals_in_order q"
  by (simp add: meals_in_order_def)

lemma populate_any_order:
  assumes t: "three_slot_plan (fst (getMealPlan ls))"
    and s: "list_all standard_call calls"
    and d: "distinct (map call_slot calls)" "distinct (map call_slot calls')"
    and e: "set calls' = set calls"
  shows "fst (getAllMealsFromPlan (populate calls' ls)) =
         fst (getAllMealsFromPlan (populate calls ls))"
proof -
  from s e have s': "list_all standard_call calls'"
    by (simp add: list_all_iff)
  have "slot (fst (getMealPlan (populate calls' ls))) x y =
        slot (fst (getMealPlan (populate calls ls))) x y" for x y
    by (simp add: slot_populate [OF t s d(1)] slot_populate [OF t s' d(2)]
        find_same_set [OF d(2) d(1) e])
  then have "meals_in_order (fst (getMealPlan (populate calls' ls))) =
        meals_in_order (fst (getMealPlan (populate calls ls)))"
    by (rule meals_in_order_slots)
  then show ?thesis
    by (simp add: getAllMeals_three_slot three_slot_populate [OF t s]
        three_slot_populate [OF t s'])
qed

lemma getAllMeals_store: "snd (getAllMealsFromPlan ls) = ls"
  by (simp add: getAllMealsFromPlan_def case_prod_unfold Let_def getMealPlan_store)

lemma monday_then_sunday:
  "fst (getAllMealsFromPlan (populate
      [(True, ''monday'', ''breakfast'', plain_recipe 1),
       (True, ''sunday'', ''dinner'', plain_recipe 2)] fresh)) =
     [\<lparr>entry_day = ''monday'', entry_mealType = ''breakfast'', entry_recipe = plain_recipe 1\<rparr>,
      \<lparr>entry_day = ''sunday'', entry_mealType = ''dinner'', entry_recipe = plain_recipe 2\<rparr>]"
  by code_simp

lemma sunday_then_monday:
  "fst (getAllMealsFromPlan (populate
      [(True, ''sunday'', ''dinner'', plain_recipe 2),
       (True, ''monday'', ''breakfast'', plain_recipe 1)] fresh)) =
     [\<lparr>entry_day = ''monday'', entry_mealType = ''breakfast'', entry_recipe = plain_recipe 1\<rparr>,
      \<lparr>entry_day = ''sunday'', entry_mealType = ''dinner'', entry_recipe = plain_recipe 2\<rparr>]"
  by code_simp

text \<open>
  Claim C6. On a plan of the data model's shape (the seven days, each with breakfast, lunch
  and dinner), populated by any sequence of \<^verbatim>\<open>addMealToPlan\<close> calls on week days and the
  three meal types, \<^verbatim>\<open>getAllMealsFromPlan\<close> returns exactly the non-null slots, by day
  from monday to sunday and within a day breakfast, lunch, dinner. Calls that fill
  different slots give the same result in any order. Populating monday/breakfast and
  sunday/dinner of a fresh store, in either order, gives the two entries monday-breakfast,
  sunday-dinner.
\<close>

theorem meals_in_plan_order:
  "(three_slot_plan (fst (getMealPlan ls)) \<and> list_all standard_call calls \<longrightarrow>
      fst (getAllMealsFromPlan (populate calls ls)) =
        meals_in_order (fst (getMealPlan (populate calls ls)))
      \<and> (distinct (map call_slot calls) \<and> distinct (map call_slot calls')
           \<and> set calls' = set calls \<longrightarrow>
          fst (getAllMealsFromPlan (populate calls' ls)) =
            fst (getAllMealsFromPlan (populate calls ls))))
   \<and> fst (getAllMealsFromPlan (populate
        [(True, ''monday'', ''breakfast'', plain_recipe 1),
         (True, ''sunday'', ''dinner'', plain_recipe 2)] fresh)) =
       [\<lparr>entry_day = ''monday'', entry_mealType = ''breakfast'', entry_recipe = plain_recipe 1\<rparr>,
        \<lparr>entry_day = ''sunday'', entry_mealType = ''dinner'', entry_recipe = plain_recipe 2\<rparr>]
   \<and> fst (getAllMealsFromPlan (populate
        [(True, ''sunday'', ''dinner'', plain_recipe 2),
         (True, ''monday'', ''breakfast'', plain_recipe 1)] fresh)) =
       [\<lparr>entry_day = ''monday'', entry_mealType = ''breakfast'', entry_recipe = plain_recipe 1\<rparr>,
        \<lparr>entry_day = ''sunday'', entry_mealType = ''dinner'', entry_recipe = plain_recipe 2\<rparr>]"
proof (intro conjI impI)
  assume a: "three_slot_plan (fst (getMealPlan ls)) \<and> list_all standard_call calls"
  then have "three_slot_plan (fst (getMealPlan (populate calls ls)))"
    by (simp add: three_slot_populate)
  then show "fst (getAllMealsFromPlan (populate calls ls)) =
      meals_in_order (fst (getMealPlan (populate calls ls)))"
    by (rule getAllMeals_three_slot)
next
  assume a: "three_slot_plan (fst (getMealPlan ls)) \<and> list_all standard_call calls"
    and b: "distinct (map call_slot calls) \<and> distinct (map call_slot calls')
      \<and> set calls' = set calls"
  then show "fst (getAllMealsFromPlan (populate calls' ls)) =
      fst (getAllMealsFromPlan (populate calls ls))"
    by (simp add: populate_any_order)
qed (rule monday_then_sunday, rule sunday_then_monday)

theorem meals_in_plan_order_witness:
  "three_slot_plan (fst (getMealPlan fresh))
   \<and> list_all standard_call
       [(True, ''sunday'', ''dinner'', plain_recipe 2),
        (True, ''monday'', ''breakfast'', plain_recipe 1)]
   \<and> fst (getAllMealsFromPlan (populate
        [(True, ''sunday'', ''dinner'', plain_recipe 2),
         (True, ''monday'', ''breakfast'', plain_recipe 1)] fresh)) =
       meals_in_order (fst (getMealPlan (populate
        [(True, ''sunday'', ''dinner'', plain_recipe 2),
         (True, ''monday'', ''breakfast'', plain_recipe 1)] fresh)))
   \<and> fst (getAllMealsFromPlan (populate
        [(True, ''monday'', ''breakfast'', plain_recipe 1),
         (True, ''sunday'', ''dinner'', plain_recipe 2)] fresh)) =
      fst (getAllMealsFromPlan (populate
        [(True, ''sunday'', ''dinner'', plain_recipe 2),
         (True, ''monday'', ''breakfast'', plain_recipe 1)] fresh))"
proof -
  have t: "three_slot_plan (fst (getMealPlan fresh))"
    by (simp add: getMealPlan_plan fresh_def three_slot_emptyPlan)
  have s: "list_all standard_call
       [(True, ''sunday'', ''dinner'', plain_recipe 2),
        (True, ''monday'', ''breakfast'', plain_recipe 1)]"
    by (simp add: standard_call_def call_slot_def weekDays_def mealTypes_def)
  have d: "distinct (map call_slot
       [(True, ''sunday'', ''dinner'', plain_recipe 2),
        (True, ''monday'', ''breakfast'', plain_recipe 1)])"
    "distinct (map call_slot
       [(True, ''monday'', ''breakfast'', plain_recipe 1),
        (True, ''sunday'', ''dinner'', plain_recipe 2)])"
    by (simp_all add: call_slot_def)
  have e: "set [(True, ''monday'', ''breakfast'', plain_recipe 1),
                (True, ''sunday'', ''dinner'', plain_recipe 2)] =
           set [(True, ''sunday'', ''dinner'', plain_recipe 2),
                (True, ''monday'', ''breakfast'', plain_recipe 1)]"
    by auto
  from t s d e
    meals_in_plan_order [where ls = fresh
      and calls = "[(True, ''sunday'', ''dinner'', plain_recipe 2),
                    (True, ''monday'', ''breakfast'', plain_recipe 1)]"
      and calls' = "[(True, ''monday'', ''breakfast'', plain_recipe 1),
                     (True, ''sunday'', ''dinner'', plain_recipe 2)]"]
  show ?thesis by blast
qed

section \<open>Shopping list: duplicates and grouping\<close>

lemma gen_name_first_entry: "gen_name (first_entry i a) = ingredient_name i"
  by (simp add: first_entry_def)

lemma add_amount_first_entry:
  "ingredient_name i = ingredient_name x \<Longrightarrow>
   add_amount ar i (first_entry x a) = first_entry x (js_plus ar a (amount_or_0 i))"
  by (simp add: add_amount_def first_entry_def)

lemma add_amount_other:
  "gen_name g \<noteq> ingredient_name i \<Longrightarrow> add_amount ar i g = g"
  by (simp add: add_amount_def)

lemma names_group: "gen_name ` set (group_by_name ar xs) = ingredient_name ` set xs"
proof (induction ar xs rule: group_by_name.induct)
  case (1 ar)
  show ?case by simp
next
  case (2 ar i rest)
  have "ingredient_name ` set rest \<subseteq>
        insert (ingredient_name i)
          (ingredient_name ` set (filter (\<lambda>j. ingredient_name j \<noteq> ingredient_name i) rest))"
    by auto
  with 2 show ?case
    by (auto simp: gen_name_first_entry)
qed

lemma group_snoc:
  "group_by_name ar (xs @ [i]) =
     (if ingredient_name i \<in> ingredient_name ` set xs
      then map (add_amount ar i) (group_by_name ar xs)
      else group_by_name ar xs @ [first_entry i (amount_or_0 i)])"
proof (induction ar xs rule: group_by_name.induct)
  case (1 ar)
  show ?case by simp
next
  case (2 ar x rest)
  let ?F = "filter (\<lambda>j. ingredient_name j \<noteq> ingredient_name x) rest"
  show ?case
  proof (cases "ingredient_name i = ingredient_name x")
    case True
    have "\<And>g. g \<in> set (group_by_name ar ?F) \<Longrightarrow> gen_name g \<noteq> ingredient_name i"
    proof -
      fix g assume "g \<in> set (group_by_name ar ?F)"
      then have "gen_name g \<in> ingredient_name ` set ?F"
        using names_group [of ar ?F] by blast
      with True show "gen_name g \<noteq> ingredient_name i" by auto
    qed
    then have "map (add_amount ar i) (group_by_name ar ?F) = group_by_name ar ?F"
      by (simp add: map_idI add_amount_other)
    with True show ?thesis
      by (simp add: add_amount_first_entry)
  next
    case False
    then have mem: "ingredient_name i \<in> ingredient_name ` set ?F \<longleftrightarrow>
        ingredient_name i \<in> ingredient_name ` set rest"
      by auto
    have x: "add_amount ar i (first_entry x a) = first_entry x a" for a
      using False by (simp add: add_amount_other gen_name_first_entry)
    from False have ne: "ingredient_name x \<noteq> ingredient_name i" by simp
    show ?thesis
      using False ne "2.IH" mem by (simp add: x)
  qed
qed

lemma add_ingredient_keyed:
  "add_ingredient ar (keyed gs) i =
     keyed (if ingredient_name i \<in> gen_name ` set gs
            then map (add_amount ar i) gs
            else gs @ [first_entry i (amount_or_0 i)])"
proof -
  have k: "map fst (keyed gs) = map gen_name gs"
    by (simp add: keyed_def comp_def)
  have m: "map (\<lambda>(k, existing).
              if k = ingredient_name i
              then (k, existing\<lparr>gen_amount := js_plus ar (gen_amount existing) (amount_or_0 i)\<rparr>)
              else (k, existing)) (keyed gs) = keyed (map (add_amount ar i) gs)"
    by (simp add: keyed_def add_amount_def comp_def)
  show ?thesis
    by (simp add: add_ingredient_def Let_def k m) (simp add: keyed_def first_entry_def)
qed

lemma foldl_add_ingredient:
  "foldl (add_ingredient ar) (keyed (group_by_name ar xs)) ys =
     keyed (group_by_name ar (xs @ ys))"
proof (induction ys arbitrary: xs)
  case Nil
  show ?case by simp
next
  case (Cons y ys)
  have "add_ingredient ar (keyed (group_by_name ar xs)) y =
        keyed (group_by_name ar (xs @ [y]))"
    by (simp only: add_ingredient_keyed group_snoc names_group)
  then show ?case
    using Cons.IH [of "xs @ [y]"] by simp
qed

lemma foldl_add_recipe:
  "foldl (add_recipe ar) (keyed (group_by_name ar xs)) recipes =
     keyed (group_by_name ar
       (xs @ concat (map (\<lambda>r. case extendedIngredients r of None \<Rightarrow> [] | Some list \<Rightarrow> list)
                  recipes)))"
proof (induction recipes arbitrary: xs)
  case Nil
  show ?case by simp
next
  case (Cons r recipes)
  show ?case
  proof (cases "extendedIngredients r")
    case None
    then show ?thesis
      using Cons.IH [of xs] by (simp add: add_recipe_def)
  next
    case (Some list)
    then show ?thesis
      using Cons.IH [of "xs @ list"] by (simp add: add_recipe_def foldl_add_ingredient)
  qed
qed

lemma generate_groups:
  "generateShoppingListFromMealPlan ar ls =
     (group_by_name ar (plan_ingredients (fst (getAllMealsFromPlan ls))),
      snd (getAllMealsFromPlan ls))"
proof -
  have "foldl (add_recipe ar) [] (map entry_recipe meals) =
        keyed (group_by_name ar (plan_ingredients meals))" for meals
    using foldl_add_recipe [of ar "[]" "map entry_recipe meals"]
    by (simp add: keyed_def plan_ingredients_def comp_def)
  then show ?thesis
    by (simp add: generateShoppingListFromMealPlan_def case_prod_unfold Let_def keyed_def comp_def)
qed

lemma lower_Tomato: "toLowerCase ''Tomato'' = ''tomato''"
  by code_simp

lemma lower_tomato: "toLowerCase ''tomato'' = ''tomato''"
  by code_simp

lemma Tomato_then_tomato:
  "addToShoppingList ok 3 4 \<lparr>new_name = ''tomato'', new_category = Some ''produce''\<rparr>
     (snd (addToShoppingList True 1 2 \<lparr>new_name = ''Tomato'', new_category = None\<rparr> fresh)) =
   (False,
    fresh\<lparr>SHOPPING_LIST := Some
      [\<lparr>item_id = 1, item_name = ''Tomato'', item_category = ''other'', item_checked = False,
         item_addedAt = 2\<rparr>]\<rparr>)"
  by (simp add: addToShoppingList_eq getShoppingList_list fresh_def lower_Tomato lower_tomato
      or_else_def)

lemma tomato_groups:
  "fst (generateShoppingListFromMealPlan exact tomato_store) =
     [\<lparr>gen_name = ''Tomato'', gen_category = ''produce'', gen_amount = Finite (7 / 2),
        gen_unit = ''pcs'', gen_checked = False\<rparr>,
      \<lparr>gen_name = ''tomato'', gen_category = ''produce'', gen_amount = Finite 1,
        gen_unit = ''kg'', gen_checked = False\<rparr>]"
  by code_simp

text \<open>
  Claim C7. \<^verbatim>\<open>addToShoppingList\<close> returns false and leaves the store as it is when an item
  of the list has the same name up to case; otherwise it returns true and appends the item
  (stored when \<^verbatim>\<open>localStorage\<close> accepts the write). Adding "Tomato" and then "tomato"
  leaves the one entry "Tomato", untouched by the second call.
  \<^verbatim>\<open>generateShoppingListFromMealPlan\<close> groups the ingredients of the plan's meals by
  exact name: one entry per name, in the order of first occurrence, with the category and
  unit of the first occurrence and its amount, to which the amounts of the later
  occurrences are added in their order by the machine's addition, whatever that addition
  is; it writes nothing. "Tomato" (2 pcs, then 1.5 g) becomes one entry of 3.5 pcs, and
  "tomato" stays apart.
\<close>

theorem shopping_list_names:
  "addToShoppingList ok now_id now_added item ls =
     (if toLowerCase (new_name item) \<in>
           (\<lambda>i. toLowerCase (item_name i)) ` set (fst (getShoppingList ls))
      then (False, ls)
      else (True,
            if ok
            then ls\<lparr>SHOPPING_LIST :=
                      Some (fst (getShoppingList ls) @
                        [\<lparr>item_id = now_id, item_name = new_name item,
                          item_category = or_else (new_category item) ''other'',
                          item_checked = False, item_addedAt = now_added\<rparr>])\<rparr>
            else ls))
   \<and> addToShoppingList ok 3 4 \<lparr>new_name = ''tomato'', new_category = Some ''produce''\<rparr>
        (snd (addToShoppingList True 1 2 \<lparr>new_name = ''Tomato'', new_category = None\<rparr> fresh)) =
      (False,
       fresh\<lparr>SHOPPING_LIST := Some
         [\<lparr>item_id = 1, item_name = ''Tomato'', item_category = ''other'', item_checked = False,
            item_addedAt = 2\<rparr>]\<rparr>)
   \<and> generateShoppingListFromMealPlan ar ls =
       (group_by_name ar (plan_ingredients (fst (getAllMealsFromPlan ls))), ls)
   \<and> fst (generateShoppingListFromMealPlan exact tomato_store) =
       [\<lparr>gen_name = ''Tomato'', gen_category = ''produce'', gen_amount = Finite (7 / 2),
          gen_unit = ''pcs'', gen_checked = False\<rparr>,
        \<lparr>gen_name = ''tomato'', gen_category = ''produce'', gen_amount = Finite 1,
          gen_unit = ''kg'', gen_checked = False\<rparr>]"
  using addToShoppingList_eq [of ok now_id now_added item ls] Tomato_then_tomato [of ok]
    generate_groups [of ar ls] getAllMeals_store [of ls] tomato_groups
  by simp

section \<open>Weekly nutrition\<close>

lemma extract_values:
  "extractNutritionFromRecipe recipe =
     \<lparr>calories = nutrient_value ''Calories'' recipe,
       protein = nutrient_value ''Protein'' recipe,
       carbs = nutrient_value ''Carbohydrates'' recipe,
       fat = nutrient_value ''Fat'' recipe\<rparr>"
  by (simp add: extractNutritionFromRecipe_def nutrient_value_def Let_def split: option.splits)

lemma add_nutrition_fields:
  "calories (add_nutrition ar a b) = js_plus ar (calories a) (calories b)"
  "protein (add_nutrition ar a b) = js_plus ar (protein a) (protein b)"
  "carbs (add_nutrition ar a b) = js_plus ar (carbs a) (carbs b)"
  "fat (add_nutrition ar a b) = js_plus ar (fat a) (fat b)"
  by (simp_all add: add_nutrition_def)

lemma foldl_meals:
  assumes add: "\<And>a b. f (add_nutrition ar a b) = js_plus ar (f a) (f b)"
  shows "f (foldl (\<lambda>t meal. case meal of
                              Some recipe \<Rightarrow> add_nutrition ar t (extractNutritionFromRecipe recipe)
                            | None \<Rightarrow> t) t0 meals) =
         foldl (js_plus ar) (f t0)
           (map (\<lambda>r. f (extractNutritionFromRecipe r))
              (concat (map (\<lambda>meal. case meal of None \<Rightarrow> [] | Some r \<Rightarrow> [r]) meals)))"
proof (induction meals arbitrary: t0)
  case Nil
  show ?case by simp
next
  case (Cons meal meals)
  show ?case
    by (cases meal) (simp_all add: Cons.IH add)
qed

lemma add_day_total:
  assumes add: "\<And>a b. f (add_nutrition ar a b) = js_plus ar (f a) (f b)"
  shows "f (add_day ar mealPlan t day) =
         foldl (js_plus ar) (f t)
           (map (\<lambda>r. f (extractNutritionFromRecipe r)) (day_recipes mealPlan day))"
proof (cases "map_of mealPlan day")
  case None
  then show ?thesis
    by (simp add: add_day_def get_property_def day_recipes_def)
next
  case (Some dayMeals)
  then show ?thesis
    by (simp add: add_day_def get_property_def day_recipes_def foldl_meals [of f, OF add])
qed

lemma foldl_days:
  assumes add: "\<And>a b. f (add_nutrition ar a b) = js_plus ar (f a) (f b)"
  shows "f (foldl (add_day ar mealPlan) t days) =
         foldl (js_plus ar) (f t)
           (map (\<lambda>r. f (extractNutritionFromRecipe r))
              (concat (map (day_recipes mealPlan) days)))"
proof (induction days arbitrary: t)
  case Nil
  show ?case by simp
next
  case (Cons day days)
  show ?case
    by (simp add: Cons.IH add_day_total [of f, OF add])
qed

lemma weeklyTotals_fields:
  "calories (weeklyTotals ar mealPlan) = week_total ar ''Calories'' mealPlan"
  "protein (weeklyTotals ar mealPlan) = week_total ar ''Protein'' mealPlan"
  "carbs (weeklyTotals ar mealPlan) = week_total ar ''Carbohydrates'' mealPlan"
  "fat (weeklyTotals ar mealPlan) = week_total ar ''Fat'' mealPlan"
  by (simp_all add: weeklyTotals_def week_total_def total_of_def week_recipes_def
      foldl_days add_nutrition_fields extract_values)

lemma loadWeekNutrition_eq:
  "loadWeekNutrition ar ls =
     (\<lparr>calories =
         Math_round (js_divide ar (week_total ar ''Calories'' (fst (getMealPlan ls))) (Finite 7)),
       protein =
         Math_round (js_divide ar (week_total ar ''Protein'' (fst (getMealPlan ls))) (Finite 7)),
       carbs =
         Math_round
           (js_divide ar (week_total ar ''Carbohydrates'' (fst (getMealPlan ls))) (Finite 7)),
       fat =
         Math_round (js_divide ar (week_total ar ''Fat'' (fst (getMealPlan ls))) (Finite 7))\<rparr>,
      ls)"
  by (simp add: loadWeekNutrition_def case_prod_unfold Let_def getMealPlan_store
      weeklyTotals_fields)

lemma nearest_integer: "\<bar>of_int \<lfloor>x + 1 / 2\<rfloor> - x\<bar> \<le> (1 / 2 :: rat)"
  by linarith

lemma foldl_zeros:
  assumes "zero_neutral ar" "list_all (\<lambda>v. v = Finite 0) vs"
  shows "foldl (js_plus ar) t vs = t"
  using assms by (induction vs arbitrary: t) (simp_all add: zero_neutral_def)

lemma total_of_append:
  "total_of ar name (xs @ ys) =
     foldl (js_plus ar) (total_of ar name xs) (map (nutrient_value name) ys)"
  by (simp add: total_of_def)

lemma week_recipes_monday:
  "week_recipes mealPlan =
     day_recipes mealPlan ''monday'' @
     concat (map (day_recipes mealPlan)
       [''tuesday'', ''wednesday'', ''thursday'', ''friday'', ''saturday'', ''sunday''])"
  by (simp add: week_recipes_def weekDays_def)

lemma no_data_concat:
  "list_all (\<lambda>day. list_all (\<lambda>r. nutrient_value name r = Finite 0) (day_recipes mealPlan day))
     days \<Longrightarrow>
   list_all (\<lambda>v. v = Finite 0)
     (map (nutrient_value name) (concat (map (day_recipes mealPlan) days)))"
  by (induction days) (auto simp: list_all_iff)

lemma monday_only:
  assumes z: "zero_neutral ar"
    and m: "total_of ar ''Calories'' (day_recipes (fst (getMealPlan ls)) ''monday'') = Finite 1400"
    and r: "list_all (\<lambda>day. list_all (\<lambda>r. nutrient_value ''Calories'' r = Finite 0)
                (day_recipes (fst (getMealPlan ls)) day))
              [''tuesday'', ''wednesday'', ''thursday'', ''friday'', ''saturday'', ''sunday'']"
    and q: "js_divide ar (Finite 1400) (Finite 7) = Finite 200"
  shows "calories (fst (loadWeekNutrition ar ls)) = Finite 200"
proof -
  have "week_total ar ''Calories'' (fst (getMealPlan ls)) = Finite 1400"
    unfolding week_total_def week_recipes_monday total_of_append m
    using z no_data_concat [OF r] by (rule foldl_zeros)
  then have "calories (fst (loadWeekNutrition ar ls)) = Math_round (Finite 200)"
    by (simp add: loadWeekNutrition_eq q)
  also have "\<dots> = Finite 200"
    by code_simp
  finally show ?thesis .
qed

lemma extract_without_fat:
  "extractNutritionFromRecipe recipe_without_fat =
     \<lparr>calories = Finite 455, protein = Finite 31, carbs = Finite 50, fat = Finite 0\<rparr>"
  by code_simp

lemma extract_no_nutrition:
  "extractNutritionFromRecipe (plain_recipe 1) =
     \<lparr>calories = Finite 0, protein = Finite 0, carbs = Finite 0, fat = Finite 0\<rparr>"
  by code_simp

text \<open>
  Claim C9. \<^verbatim>\<open>extractNutritionFromRecipe\<close> yields, for calories, protein, carbs and fat,
  the amount of the nutrient "Calories", "Protein", "Carbohydrates" and "Fat", rounded to
  the nearest integer, and 0 for a nutrient the recipe lacks. \<^verbatim>\<open>loadWeekNutrition\<close> adds
  these values over all non-null meal slots of the seven days, in their order and by the
  machine's addition, divides each total by 7 by the machine's division and rounds the
  quotient to the nearest integer; \<^verbatim>\<open>Math.round\<close> is within a half of its argument. When
  Monday's meals total 1400 calories and the meals of the other days carry none, adding 0
  changes nothing and 1400 / 7 is 200 (both hold for doubles), the reported calories are
  200.
\<close>

theorem weekly_average:
  "extractNutritionFromRecipe recipe =
     \<lparr>calories = nutrient_value ''Calories'' recipe,
       protein = nutrient_value ''Protein'' recipe,
       carbs = nutrient_value ''Carbohydrates'' recipe,
       fat = nutrient_value ''Fat'' recipe\<rparr>
   \<and> extractNutritionFromRecipe recipe_without_fat =
       \<lparr>calories = Finite 455, protein = Finite 31, carbs = Finite 50, fat = Finite 0\<rparr>
   \<and> extractNutritionFromRecipe (plain_recipe 1) =
       \<lparr>calories = Finite 0, protein = Finite 0, carbs = Finite 0, fat = Finite 0\<rparr>
   \<and> loadWeekNutrition ar ls =
       (\<lparr>calories =
           Math_round (js_divide ar (week_total ar ''Calories'' (fst (getMealPlan ls))) (Finite 7)),
         protein =
           Math_round (js_divide ar (week_total ar ''Protein'' (fst (getMealPlan ls))) (Finite 7)),
         carbs =
           Math_round
             (js_divide ar (week_total ar ''Carbohydrates'' (fst (getMealPlan ls))) (Finite 7)),
         fat =
           Math_round (js_divide ar (week_total ar ''Fat'' (fst (getMealPlan ls))) (Finite 7))\<rparr>,
        ls)
   \<and> Math_round (Finite x) = Finite (of_int \<lfloor>x + 1 / 2\<rfloor>)
   \<and> \<bar>of_int \<lfloor>x + 1 / 2\<rfloor> - x\<bar> \<le> 1 / 2
   \<and> (zero_neutral ar
       \<and> total_of ar ''Calories'' (day_recipes (fst (getMealPlan ls)) ''monday'') = Finite 1400
       \<and> list_all (\<lambda>day. list_all (\<lambda>r. nutrient_value ''Calories'' r = Finite 0)
                     (day_recipes (fst (getMealPlan ls)) day))
           [''tuesday'', ''wednesday'', ''thursday'', ''friday'', ''saturday'', ''sunday'']
       \<and> js_divide ar (Finite 1400) (Finite 7) = Finite 200 \<longrightarrow>
       calories (fst (loadWeekNutrition ar ls)) = Finite 200)"
  using extract_values [of recipe] extract_without_fat extract_no_nutrition
    loadWeekNutrition_eq [of ar ls] nearest_integer [of x] monday_only [of ar ls]
  by simp

lemma exact_zero_neutral: "zero_neutral exact"
proof -
  have "exact_plus x (Finite 0) = x" for x
    by (cases x) simp_all
  then show ?thesis
    by (simp add: zero_neutral_def exact_def)
qed

lemma monday_store_monday:
  "total_of exact ''Calories'' (day_recipes (fst (getMealPlan monday_store)) ''monday'') =
     Finite 1400"
  by code_simp

lemma monday_store_rest:
  "list_all (\<lambda>day. list_all (\<lambda>r. nutrient_value ''Calories'' r = Finite 0)
               (day_recipes (fst (getMealPlan monday_store)) day))
     [''tuesday'', ''wednesday'', ''thursday'', ''friday'', ''saturday'', ''sunday'']"
  by code_simp

lemma exact_seventh: "js_divide exact (Finite 1400) (Finite 7) = Finite 200"
  by (simp add: exact_def)

theorem weekly_average_witness:
  "zero_neutral exact
   \<and> total_of exact ''Calories'' (day_recipes (fst (getMealPlan monday_store)) ''monday'') =
       Finite 1400
   \<and> list_all (\<lambda>day. list_all (\<lambda>r. nutrient_value ''Calories'' r = Finite 0)
                 (day_recipes (fst (getMealPlan monday_store)) day))
       [''tuesday'', ''wednesday'', ''thursday'', ''friday'', ''saturday'', ''sunday'']
   \<and> js_divide exact (Finite 1400) (Finite 7) = Finite 200
   \<and> calories (fst (loadWeekNutrition exact monday_store)) = Finite 200"
  using exact_zero_neutral monday_store_monday monday_store_rest exact_seventh
    weekly_average [where ar = exact and ls = monday_store and recipe = "plain_recipe 1"
      and x = 0]
  by blast

section \<open>Recent searches\<close>

lemma getRecentSearches_store: "snd (getRecentSearches ls) = ls"
  by (simp add: getRecentSearches_def getFromStorage_def)

lemma getRecentSearches_list:
  "fst (getRecentSearches ls) = (case RECENT_SEARCHES ls of Some searches \<Rightarrow> searches | None \<Rightarrow> [])"
  by (simp add: getRecentSearches_def getFromStorage_def)

lemma dropWhile_Nil_iff: "dropWhile P xs = [] \<longleftrightarrow> list_all P xs"
  by (simp add: list_all_iff)

lemma trim_empty_iff: "trim s = [] \<longleftrightarrow> list_all is_white_space s"
proof
  assume "list_all is_white_space s"
  then have d: "dropWhile is_white_space s = []"
    by (simp add: list_all_iff)
  show "trim s = []"
    unfolding trim_def d by simp
next
  assume t: "trim s = []"
  show "list_all is_white_space s"
  proof (rule ccontr)
    assume "\<not> list_all is_white_space s"
    then have ne: "dropWhile is_white_space s \<noteq> []"
      by (simp add: list_all_iff)
    then have "\<not> is_white_space (hd (dropWhile is_white_space s))"
      by (rule hd_dropWhile)
    moreover have "hd (dropWhile is_white_space s) \<in> set (rev (dropWhile is_white_space s))"
      using ne by simp
    ultimately have "\<not> list_all is_white_space (rev (dropWhile is_white_space s))"
      by (auto simp: list_all_iff)
    then have "dropWhile is_white_space (rev (dropWhile is_white_space s)) \<noteq> []"
      by (simp add: list_all_iff)
    with t show False
      unfolding trim_def by simp
  qed
qed

lemma addRecentSearch_eq:
  "addRecentSearch ok query ls =
     (if list_all is_white_space query then ls
      else if ok
           then ls\<lparr>RECENT_SEARCHES :=
                     Some (take 10 (query # filter (\<lambda>s. s \<noteq> query) (fst (getRecentSearches ls))))\<rparr>
           else ls)"
proof (cases "list_all is_white_space query")
  case True
  then show ?thesis
    by (simp add: addRecentSearch_def trim_empty_iff)
next
  case False
  then have "query \<noteq> []" by auto
  with False show ?thesis
    by (simp add: addRecentSearch_def trim_empty_iff saveToStorage_def case_prod_unfold
        getRecentSearches_store Let_def)
qed

lemma addRecentSearch_length:
  "length (fst (getRecentSearches ls)) \<le> 10 \<Longrightarrow>
   length (fst (getRecentSearches (addRecentSearch ok query ls))) \<le> 10"
  by (simp add: addRecentSearch_eq getRecentSearches_list)

lemma addRecentSearches_length:
  "length (fst (getRecentSearches ls)) \<le> 10 \<Longrightarrow>
   length (fst (getRecentSearches (addRecentSearches calls ls))) \<le> 10"
proof (induction calls arbitrary: ls)
  case Nil
  then show ?case by (simp add: addRecentSearches_def)
next
  case (Cons c calls)
  obtain ok query where c: "c = (ok, query)" by (cases c)
  have "length (fst (getRecentSearches (addRecentSearch ok query ls))) \<le> 10"
    using Cons.prems by (rule addRecentSearch_length)
  from Cons.IH [OF this] show ?case
    by (simp add: addRecentSearches_def c)
qed

lemma pasta_soup_pasta:
  "addRecentSearches [(True, ''pasta''), (True, ''soup''), (True, ''pasta'')] fresh =
     fresh\<lparr>RECENT_SEARCHES := Some [''pasta'', ''soup'']\<rparr>"
  by (simp add: addRecentSearches_def addRecentSearch_eq getRecentSearches_list fresh_def
      is_white_space_def)

lemma blank_ignored: "addRecentSearch ok ''  '' ls = ls"
  by (simp add: addRecentSearch_eq is_white_space_def)

lemma eleven_kept_ten:
  "fst (getRecentSearches (addRecentSearches eleven_searches fresh)) =
     [''k'', ''j'', ''i'', ''h'', ''g'', ''f'', ''e'', ''d'', ''c'', ''b'']"
  by code_simp

text \<open>
  Claim C10. \<^verbatim>\<open>addRecentSearch\<close> leaves the store as it is for an empty query and for a
  query of white space only; otherwise it removes the entries equal to the query, puts the
  query first and keeps the first 10 entries (stored when \<^verbatim>\<open>localStorage\<close> accepts the
  write). "pasta", "soup", "pasta" on a fresh store give "pasta", "soup". A list of at
  most 10 searches has at most 10 after any sequence of calls.
\<close>

theorem recent_searches_capped:
  "addRecentSearch ok query ls =
     (if list_all is_white_space query then ls
      else if ok
           then ls\<lparr>RECENT_SEARCHES :=
                     Some (take 10 (query # filter (\<lambda>s. s \<noteq> query) (fst (getRecentSearches ls))))\<rparr>
           else ls)
   \<and> (trim query = [] \<longleftrightarrow> list_all is_white_space query)
   \<and> addRecentSearches [(True, ''pasta''), (True, ''soup''), (True, ''pasta'')] fresh =
       fresh\<lparr>RECENT_SEARCHES := Some [''pasta'', ''soup'']\<rparr>
   \<and> (length (fst (getRecentSearches ls)) \<le> 10 \<longrightarrow>
        length (fst (getRecentSearches (addRecentSearches calls ls))) \<le> 10)"
  using addRecentSearch_eq [of ok query ls] trim_empty_iff [of query] pasta_soup_pasta
    addRecentSearches_length [of ls calls]
  by blast

theorem recent_searches_capped_witness:
  "length (fst (getRecentSearches fresh)) \<le> 10
   \<and> length (fst (getRecentSearches (addRecentSearches eleven_searches fresh))) \<le> 10
   \<and> length (fst (getRecentSearches (addRecentSearches eleven_searches fresh))) = 10"
proof -
  have "length (fst (getRecentSearches fresh)) \<le> 10"
    by (simp add: getRecentSearches_list fresh_def)
  with recent_searches_capped [where ls = fresh and calls = eleven_searches]
  show ?thesis
    by (simp add: eleven_kept_ten)
qed

end
